theory Spec2Isabelle
  imports Main "HOL-Library.Char_ord" "HOL-Library.List_Lexorder" "HOL-Library.Product_Lexorder"
    "HOL-Library.Sublist"
begin

section \<open>Cells and data frames\<close>

text \<open>
  The handler \<open>upload_file\<close> of \<open>backend/main.py\<close> reads a spreadsheet into a pandas
  data frame, analyses it and writes an openpyxl workbook. Python strings are modelled as
  \<open>string\<close>, a non-ASCII literal standing for its UTF-8 bytes: concatenation, equality,
  containment and the lexicographic order of code points are the same on both sides.

  A cell is empty (pandas \<open>NaN\<close>, Python \<open>None\<close>), a text, an integer or a boolean.
  Floating-point numbers and dates are not modelled, and a boolean is a value of its own
  (Python equates \<open>True\<close> with \<open>1\<close>).
\<close>

datatype cell = Blank | Text string | Num int | Bool bool

text \<open>
  A data frame: the column labels and the rows, each row with its index label and its
  values, aligned with the columns. \<open>dropna\<close> keeps the index labels of the rows it keeps.
\<close>

record dataframe =
  columns :: "string list"
  rows :: "(nat \<times> cell list) list"

text \<open>\<open>row[c]\<close>: the value of the row under the column labelled \<open>c\<close>.\<close>

definition getitem :: "string list \<Rightarrow> cell list \<Rightarrow> string \<Rightarrow> cell" where
  "getitem cols vs c = (case map_of (zip cols vs) c of Some v \<Rightarrow> v | None \<Rightarrow> Blank)"

definition name_of :: "dataframe \<Rightarrow> nat \<times> cell list \<Rightarrow> cell" where
  "name_of df r = getitem (columns df) (snd r) ''Name''"

definition dtype_of :: "dataframe \<Rightarrow> nat \<times> cell list \<Rightarrow> cell" where
  "dtype_of df r = getitem (columns df) (snd r) ''Data Type''"

text \<open>\<open>df.dropna(subset=["Name", "Data Type"], inplace=True)\<close>\<close>

definition dropna :: "dataframe \<Rightarrow> dataframe" where
  "dropna df = df\<lparr>rows := filter (\<lambda>r. name_of df r \<noteq> Blank \<and> dtype_of df r \<noteq> Blank) (rows df)\<rparr>"

section \<open>The analysis\<close>

text \<open>
  pandas sorts the modes of a series and the keys of a \<open>groupby\<close>. Texts are compared
  as Python compares strings. A column that mixes kinds of values has no such order in
  Python; the rank between kinds below is a choice of the model, and the theorems that
  depend on the order are about texts.
\<close>

fun cell_key :: "cell \<Rightarrow> nat \<times> string \<times> int" where
  "cell_key Blank = (0, [], 0)"
| "cell_key (Bool b) = (1, [], if b then 1 else 0)"
| "cell_key (Num n) = (2, [], n)"
| "cell_key (Text s) = (3, s, 0)"

text \<open>\<open>Series.unique()\<close>: the distinct values in order of first appearance.\<close>

fun unique :: "'a list \<Rightarrow> 'a list" where
  "unique [] = []"
| "unique (x # xs) = x # filter (\<lambda>y. y \<noteq> x) (unique xs)"

text \<open>
  \<open>Series.mode()\<close>: the most frequent values among the non-missing ones, sorted.
\<close>

definition mode :: "cell list \<Rightarrow> cell list" where
  "mode xs =
     (let ys = filter (\<lambda>x. x \<noteq> Blank) xs
      in sort_key cell_key (unique (filter (\<lambda>x. \<forall>y \<in> set ys. count_list ys y \<le> count_list ys x) ys)))"

text \<open>The aggregation \<open>lambda x: x.mode()[0] if not x.mode().empty else None\<close>.\<close>

definition agg_mode :: "cell list \<Rightarrow> cell" where
  "agg_mode xs = (case mode xs of [] \<Rightarrow> Blank | m # _ \<Rightarrow> m)"

text \<open>The Data Type values of the group of a Name, in row order.\<close>

definition group_values :: "dataframe \<Rightarrow> cell \<Rightarrow> cell list" where
  "group_values df n = map (dtype_of df) (filter (\<lambda>r. name_of df r = n) (rows df))"

text \<open>
  \<open>common_types = df.groupby("Name")["Data Type"].agg(...).to_dict()\<close>: a dictionary
  from each Name of the frame (missing keys are left out by \<open>groupby\<close>) to the dominant
  Data Type of its group.
\<close>

definition common_types :: "dataframe \<Rightarrow> cell \<rightharpoonup> cell" where
  "common_types df n =
     (if n \<noteq> Blank \<and> n \<in> set (map (name_of df) (rows df))
      then Some (agg_mode (group_values df n)) else None)"

text \<open>\<open>dict.get(k)\<close> is \<open>None\<close> for an absent key.\<close>

definition dict_get :: "(cell \<rightharpoonup> cell) \<Rightarrow> cell \<Rightarrow> cell" where
  "dict_get d k = (case d k of Some v \<Rightarrow> v | None \<Rightarrow> Blank)"

text \<open>\<open>lambda row: row["Data Type"] != common_types.get(row["Name"])\<close>\<close>

definition Highlight :: "dataframe \<Rightarrow> nat \<times> cell list \<Rightarrow> bool" where
  "Highlight df r = (dtype_of df r \<noteq> dict_get (common_types df) (name_of df r))"

text \<open>\<open>inconsistent_names = df[df["Highlight"]]["Name"].unique()\<close>\<close>

definition inconsistent_names :: "dataframe \<Rightarrow> cell list" where
  "inconsistent_names df = unique (map (name_of df) (filter (Highlight df) (rows df)))"

text \<open>
  \<open>summary = df[df["Name"].isin(inconsistent_names)].groupby(["Name", "Data Type"])
  .size().reset_index(name="Count")\<close>: one row for every pair of a Name and a Data Type
  that occurs among the selected rows, sorted by the pair, with the number of these rows.
\<close>

definition selected :: "dataframe \<Rightarrow> (nat \<times> cell list) list" where
  "selected df = filter (\<lambda>r. name_of df r \<in> set (inconsistent_names df)) (rows df)"

definition pair_of :: "dataframe \<Rightarrow> nat \<times> cell list \<Rightarrow> cell \<times> cell" where
  "pair_of df r = (name_of df r, dtype_of df r)"

definition summary :: "dataframe \<Rightarrow> (cell \<times> cell \<times> nat) list" where
  "summary df =
     (let ps = map (pair_of df) (selected df)
      in map (\<lambda>p. (fst p, snd p, count_list ps p))
           (sort_key (\<lambda>p. (cell_key (fst p), cell_key (snd p))) (unique ps)))"

text \<open>The keys of the summary: the sorted pairs of the selected rows.\<close>

definition summary_keys :: "dataframe \<Rightarrow> (cell \<times> cell) list" where
  "summary_keys df = sort_key (\<lambda>p. (cell_key (fst p), cell_key (snd p))) (unique (map (pair_of df) (selected df)))"

text \<open>
  A dominant value of a group, in the words of the specification: a value of the group
  that no other value of the group outnumbers.
\<close>

definition is_mode :: "cell list \<Rightarrow> cell \<Rightarrow> bool" where
  "is_mode xs m = (m \<in> set xs \<and> (\<forall>y \<in> set xs. count_list xs y \<le> count_list xs m))"

text \<open>The invariant of an analysed frame: no row lacks its Name or its Data Type.\<close>

definition analysed :: "dataframe \<Rightarrow> bool" where
  "analysed df = (\<forall>r \<in> set (rows df). name_of df r \<noteq> Blank \<and> dtype_of df r \<noteq> Blank)"

section \<open>Requests, responses and workbooks\<close>

text \<open>
  An exception with the text \<open>str(e)\<close>. The handler tells \<open>ValueError\<close> from every other
  exception.
\<close>

datatype exn = ValueError string | OtherError string

fun str_exn :: "exn \<Rightarrow> string" where
  "str_exn (ValueError m) = m"
| "str_exn (OtherError m) = m"

text \<open>The JSON response: status code, \<open>success\<close>, \<open>message\<close>, \<open>download_filename\<close>.\<close>

record response =
  status_code :: nat
  success :: bool
  message :: string
  download_filename :: "string option"

text \<open>
  A worksheet: its title, its cells by rows (row \<open>r\<close>, column \<open>c\<close> at \<open>grid ! (r - 1) ! (c - 1)\<close>),
  the numbers of the rows filled yellow and the cells set in the blue underlined font.
  A workbook: its sheets in order and the VBA archive it carries, if any.
\<close>

record sheet =
  title :: string
  grid :: "cell list list"
  fills :: "nat list"
  blue :: "(nat \<times> nat) list"

record workbook =
  sheets :: "sheet list"
  vba_archive :: "string option"

text \<open>Log records of the composition, by level and call site.\<close>

datatype level = INFO | WARNING

datatype event =
  RebuildXls | SheetNameFallback | KeepVba | LoadXlsx | OldSummaryRemoved
  | SummaryWritten | NoNameColumn string | LinksAdded | Saved string

text \<open>
  What the handler takes from Python and its libraries without their code being part of
  the repository: \<open>str.lower\<close>; \<open>str(v).strip().lower()\<close> of a cell value; the text of the
  \<open>HYPERLINK\<close> formula built with \<open>quote_sheetname\<close> and \<open>get_column_letter\<close> from the
  title of the sheet, the column, the row and the displayed value; the title openpyxl
  gives a new sheet whose title is taken; the order in which the set of the required
  columns is iterated; and the exception in which the analysis of a frame without rows
  ends, if any. For such a frame \<open>DataFrame.apply\<close> returns a frame, not a series:
  depending on the version of pandas, the assignment to \<open>df["Highlight"]\<close> raises a
  \<open>ValueError\<close>, or it adds no column and the selection \<open>df[df["Highlight"]]\<close> of the
  next statement raises \<open>KeyError('Highlight')\<close>.
\<close>

record library =
  lower :: "string \<Rightarrow> string"
  str_strip_lower :: "cell \<Rightarrow> string"
  hyperlink :: "string \<Rightarrow> nat \<Rightarrow> nat \<Rightarrow> cell \<Rightarrow> string"
  avoid_duplicate_name :: "string list \<Rightarrow> string \<Rightarrow> string"
  required_order :: "string list"
  apply_empty :: "exn option"

text \<open>
  An upload and what the file system and the parsers make of it: the name and the size of
  the file; the failure of storing it, if any; the results of
  \<open>pd.read_excel(input_path, sheet_name=0)\<close>, of \<open>pd.ExcelFile(input_path).sheet_names\<close>
  and of \<open>pd.read_excel(input_path, sheet_name=name)\<close>; the failure of
  \<open>load_workbook\<close>, if any, and the workbook in the file; the failure of \<open>wb.save\<close>, if any.
\<close>

record upload =
  filename :: string
  file_size :: nat
  store_error :: "exn option"
  read_first :: "exn + dataframe"
  excel_file :: "exn + string list"
  read_sheet :: "string \<Rightarrow> exn + dataframe"
  open_error :: "exn option"
  document :: workbook
  save_error :: "exn option"

text \<open>
  What a request leaves: the response, the file written under \<open>temp_output\<close> with its
  workbook, and the log records of the composition.
\<close>

record outcome =
  reply :: response
  saved :: "(string \<times> workbook) option"
  logs :: "(level \<times> event) list"

subsection \<open>Texts of the handler\<close>

text \<open>The message of the size limit, with \<open>MAX_FILE_SIZE_MB = 10\<close>.\<close>

definition size_limit_message :: string where
  "size_limit_message = 
     [CHR 0xE4, CHR 0xB8, CHR 0x8A, CHR 0xE5, CHR 0x82, CHR 0xB3, CHR 0xE6, CHR 0xAA, CHR 0x94,
        CHR 0xE6, CHR 0xA1, CHR 0x88, CHR 0xE5, CHR 0xA4, CHR 0xA7, CHR 0xE5, CHR 0xB0, CHR 0x8F,
        CHR 0xE8, CHR 0xB6, CHR 0x85, CHR 0xE5, CHR 0x87, CHR 0xBA, CHR 0xE9, CHR 0x99, CHR 0x90,
        CHR 0xE5, CHR 0x88, CHR 0xB6, CHR 0xE3, CHR 0x80, CHR 0x82, CHR 0xE6, CHR 0xAA, CHR 0x94,
        CHR 0xE6, CHR 0xA1, CHR 0x88, CHR 0xE5, CHR 0xA4, CHR 0xA7, CHR 0xE5, CHR 0xB0, CHR 0x8F,
        CHR 0xE4, CHR 0xB8, CHR 0x8D, CHR 0xE8, CHR 0x83, CHR 0xBD, CHR 0xE8, CHR 0xB6, CHR 0x85,
        CHR 0xE9, CHR 0x81, CHR 0x8E]
       @ '' 10 MB''
       @ [CHR 0xE3, CHR 0x80, CHR 0x82]"

text \<open>The message of an unsupported extension, naming the three supported ones.\<close>

definition unsupported_message :: string where
  "unsupported_message = 
     [CHR 0xE4, CHR 0xB8, CHR 0x8D, CHR 0xE6, CHR 0x94, CHR 0xAF, CHR 0xE6, CHR 0x8F, CHR 0xB4,
        CHR 0xE7, CHR 0x9A, CHR 0x84, CHR 0xE6, CHR 0xAA, CHR 0x94, CHR 0xE6, CHR 0xA1, CHR 0x88,
        CHR 0xE6, CHR 0xA0, CHR 0xBC, CHR 0xE5, CHR 0xBC, CHR 0x8F, CHR 0xE3, CHR 0x80, CHR 0x82,
        CHR 0xE5, CHR 0x83, CHR 0x85, CHR 0xE6, CHR 0x94, CHR 0xAF, CHR 0xE6, CHR 0x8F, CHR 0xB4]
       @ '' .xlsx, .xls, .xlsm ''
       @ [CHR 0xE6, CHR 0xAA, CHR 0x94, CHR 0xE6, CHR 0xA1, CHR 0x88, CHR 0xE3, CHR 0x80, CHR 0x82]"

text \<open>
  "The Excel file contains several worksheets; upload a file with one worksheet only, or
  change the program to handle a given worksheet."
\<close>

definition multiple_sheets_message :: string where
  "multiple_sheets_message = 
     ''Excel ''
       @ [CHR 0xE6, CHR 0xAA, CHR 0x94, CHR 0xE6, CHR 0xA1, CHR 0x88, CHR 0xE5, CHR 0x8C, CHR 0x85,
        CHR 0xE5, CHR 0x90, CHR 0xAB, CHR 0xE5, CHR 0xA4, CHR 0x9A, CHR 0xE5, CHR 0x80, CHR 0x8B,
        CHR 0xE5, CHR 0xB7, CHR 0xA5, CHR 0xE4, CHR 0xBD, CHR 0x9C, CHR 0xE8, CHR 0xA1, CHR 0xA8,
        CHR 0xEF, CHR 0xBC, CHR 0x8C, CHR 0xE8, CHR 0xAB, CHR 0x8B, CHR 0xE7, CHR 0xA2, CHR 0xBA,
        CHR 0xE4, CHR 0xBF, CHR 0x9D, CHR 0xE5, CHR 0x83, CHR 0x85, CHR 0xE4, CHR 0xB8, CHR 0x8A,
        CHR 0xE5, CHR 0x82, CHR 0xB3, CHR 0xE5, CHR 0x8C, CHR 0x85, CHR 0xE5, CHR 0x90, CHR 0xAB,
        CHR 0xE4, CHR 0xB8, CHR 0x80, CHR 0xE5, CHR 0x80, CHR 0x8B, CHR 0xE5, CHR 0xB7, CHR 0xA5,
        CHR 0xE4, CHR 0xBD, CHR 0x9C, CHR 0xE8, CHR 0xA1, CHR 0xA8, CHR 0xE7, CHR 0x9A, CHR 0x84,
        CHR 0xE6, CHR 0xAA, CHR 0x94, CHR 0xE6, CHR 0xA1, CHR 0x88, CHR 0xEF, CHR 0xBC, CHR 0x8C,
        CHR 0xE6, CHR 0x88, CHR 0x96, CHR 0xE4, CHR 0xBF, CHR 0xAE, CHR 0xE6, CHR 0x94, CHR 0xB9,
        CHR 0xE7, CHR 0xA8, CHR 0x8B, CHR 0xE5, CHR 0xBC, CHR 0x8F, CHR 0xE4, CHR 0xBB, CHR 0xA5,
        CHR 0xE8, CHR 0x99, CHR 0x95, CHR 0xE7, CHR 0x90, CHR 0x86, CHR 0xE7, CHR 0x89, CHR 0xB9,
        CHR 0xE5, CHR 0xAE, CHR 0x9A, CHR 0xE5, CHR 0xB7, CHR 0xA5, CHR 0xE4, CHR 0xBD, CHR 0x9C,
        CHR 0xE8, CHR 0xA1, CHR 0xA8, CHR 0xE3, CHR 0x80, CHR 0x82]"

text \<open>
  "Cannot read the Excel file; check that the format is right, that it holds valid data
  and that the engine for it is installed. Details: "
\<close>

definition unreadable_prefix :: string where
  "unreadable_prefix = 
     [CHR 0xE7, CHR 0x84, CHR 0xA1, CHR 0xE6, CHR 0xB3, CHR 0x95, CHR 0xE8, CHR 0xAE, CHR 0x80,
        CHR 0xE5, CHR 0x8F, CHR 0x96]
       @ '' Excel ''
       @ [CHR 0xE6, CHR 0xAA, CHR 0x94, CHR 0xE6, CHR 0xA1, CHR 0x88, CHR 0xEF, CHR 0xBC, CHR 0x8C,
        CHR 0xE8, CHR 0xAB, CHR 0x8B, CHR 0xE7, CHR 0xA2, CHR 0xBA, CHR 0xE8, CHR 0xAA, CHR 0x8D,
        CHR 0xE6, CHR 0xAA, CHR 0x94, CHR 0xE6, CHR 0xA1, CHR 0x88, CHR 0xE6, CHR 0xA0, CHR 0xBC,
        CHR 0xE5, CHR 0xBC, CHR 0x8F, CHR 0xE6, CHR 0xAD, CHR 0xA3, CHR 0xE7, CHR 0xA2, CHR 0xBA,
        CHR 0xE3, CHR 0x80, CHR 0x81, CHR 0xE5, CHR 0x8C, CHR 0x85, CHR 0xE5, CHR 0x90, CHR 0xAB,
        CHR 0xE6, CHR 0x9C, CHR 0x89, CHR 0xE6, CHR 0x95, CHR 0x88, CHR 0xE6, CHR 0x95, CHR 0xB8,
        CHR 0xE6, CHR 0x93, CHR 0x9A, CHR 0xEF, CHR 0xBC, CHR 0x8C, CHR 0xE4, CHR 0xB8, CHR 0x94,
        CHR 0xE5, CHR 0xB7, CHR 0xB2, CHR 0xE5, CHR 0xAE, CHR 0x89, CHR 0xE8, CHR 0xA3, CHR 0x9D,
        CHR 0xE5, CHR 0xB0, CHR 0x8D, CHR 0xE6, CHR 0x87, CHR 0x89, CHR 0xE8, CHR 0x99, CHR 0x95,
        CHR 0xE7, CHR 0x90, CHR 0x86, CHR 0xE5, CHR 0xBC, CHR 0x95, CHR 0xE6, CHR 0x93, CHR 0x8E,
        CHR 0xE3, CHR 0x80, CHR 0x82, CHR 0xE8, CHR 0xA9, CHR 0xB3, CHR 0xE6, CHR 0x83, CHR 0x85]
       @ '': ''"

text \<open>"The uploaded Excel file lacks required columns:"\<close>

definition missing_columns_prefix :: string where
  "missing_columns_prefix = 
     [CHR 0xE4, CHR 0xB8, CHR 0x8A, CHR 0xE5, CHR 0x82, CHR 0xB3, CHR 0xE7, CHR 0x9A, CHR 0x84]
       @ '' Excel ''
       @ [CHR 0xE6, CHR 0xAA, CHR 0x94, CHR 0xE6, CHR 0xA1, CHR 0x88, CHR 0xE7, CHR 0xBC, CHR 0xBA,
        CHR 0xE5, CHR 0xB0, CHR 0x91, CHR 0xE5, CHR 0xBF, CHR 0x85, CHR 0xE8, CHR 0xA6, CHR 0x81,
        CHR 0xE6, CHR 0xAC, CHR 0x84, CHR 0xE4, CHR 0xBD, CHR 0x8D, CHR 0xEF, CHR 0xBC, CHR 0x9A]"

text \<open>"File processed!"\<close>

definition done_message :: string where
  "done_message = 
     [CHR 0xE6, CHR 0xAA, CHR 0x94, CHR 0xE6, CHR 0xA1, CHR 0x88, CHR 0xE8, CHR 0x99, CHR 0x95,
        CHR 0xE7, CHR 0x90, CHR 0x86, CHR 0xE5, CHR 0xAE, CHR 0x8C, CHR 0xE6, CHR 0x88, CHR 0x90,
        CHR 0xEF, CHR 0xBC, CHR 0x81]"

text \<open>
  "Internal server error; contact the administrator or try again later. Error message: "
\<close>

definition internal_error_prefix :: string where
  "internal_error_prefix = 
     [CHR 0xE4, CHR 0xBC, CHR 0xBA, CHR 0xE6, CHR 0x9C, CHR 0x8D, CHR 0xE5, CHR 0x99, CHR 0xA8,
        CHR 0xE5, CHR 0x85, CHR 0xA7, CHR 0xE9, CHR 0x83, CHR 0xA8, CHR 0xE9, CHR 0x8C, CHR 0xAF,
        CHR 0xE8, CHR 0xAA, CHR 0xA4, CHR 0xEF, CHR 0xBC, CHR 0x8C, CHR 0xE8, CHR 0xAB, CHR 0x8B,
        CHR 0xE8, CHR 0x81, CHR 0xAF, CHR 0xE7, CHR 0xB9, CHR 0xAB, CHR 0xE7, CHR 0xAE, CHR 0xA1,
        CHR 0xE7, CHR 0x90, CHR 0x86, CHR 0xE5, CHR 0x93, CHR 0xA1, CHR 0xE6, CHR 0x88, CHR 0x96,
        CHR 0xE7, CHR 0xA8, CHR 0x8D, CHR 0xE5, CHR 0xBE, CHR 0x8C, CHR 0xE5, CHR 0x86, CHR 0x8D,
        CHR 0xE8, CHR 0xA9, CHR 0xA6, CHR 0xE3, CHR 0x80, CHR 0x82, CHR 0xE9, CHR 0x8C, CHR 0xAF,
        CHR 0xE8, CHR 0xAA, CHR 0xA4, CHR 0xE8, CHR 0xA8, CHR 0x8A, CHR 0xE6, CHR 0x81, CHR 0xAF]
       @ '': ''"

text \<open>The reserved title of the summary sheet ("statistics result").\<close>

definition summary_title :: string where
  "summary_title = 
     [CHR 0xE7, CHR 0xB5, CHR 0xB1, CHR 0xE8, CHR 0xA8, CHR 0x88, CHR 0xE7, CHR 0xB5, CHR 0x90,
        CHR 0xE6, CHR 0x9E, CHR 0x9C]"

definition supported_extensions :: "string list" where
  "supported_extensions = [''.xlsx'', ''.xls'', ''.xlsm'']"

text \<open>\<open>sep.join(xs)\<close>\<close>

fun join :: "string \<Rightarrow> string list \<Rightarrow> string" where
  "join sep [] = []"
| "join sep [x] = x"
| "join sep (x # y # ys) = x @ sep @ join sep (y # ys)"

definition bad_request :: "string \<Rightarrow> outcome" where
  "bad_request m =
     \<lparr>reply = \<lparr>status_code = 400, success = False, message = m, download_filename = None\<rparr>,
      saved = None, logs = []\<rparr>"

definition internal_error :: "string \<Rightarrow> outcome" where
  "internal_error m =
     \<lparr>reply = \<lparr>status_code = 500, success = False, message = internal_error_prefix @ m,
                download_filename = None\<rparr>,
      saved = None, logs = []\<rparr>"

section \<open>The handler\<close>

subsection \<open>File name\<close>

text \<open>
  \<open>os.path.splitext\<close> of \<open>posixpath\<close>: the extension starts at the last dot of the last
  path component, unless only dots precede it there.
\<close>

definition rfind :: "char \<Rightarrow> string \<Rightarrow> int" where
  "rfind c p =
     (if c \<in> set p then int (length p) - 1 - int (length (takeWhile (\<lambda>x. x \<noteq> c) (rev p))) else - 1)"

definition splitext :: "string \<Rightarrow> string \<times> string" where
  "splitext p =
     (let sepIndex = rfind CHR ''/'' p; dotIndex = rfind CHR ''.'' p
      in if dotIndex > sepIndex
            \<and> (\<exists>x \<in> set (take (nat (dotIndex - (sepIndex + 1))) (drop (nat (sepIndex + 1)) p)).
                  x \<noteq> CHR ''.'')
         then (take (nat dotIndex) p, drop (nat dotIndex) p) else (p, []))"

subsection \<open>Loading\<close>

text \<open>
  Step 3: the first sheet is read; if that raises, the sheet names are listed and a
  single sheet is read by name, several (or none) raise \<open>ValueError\<close>; whatever this
  second attempt raises, the \<open>ValueError\<close> above included, is caught and raised again as
  a \<open>ValueError\<close> whose text ends with \<open>str(e_inner)\<close>.
\<close>

definition second_attempt :: "upload \<Rightarrow> exn + dataframe" where
  "second_attempt u =
     (case excel_file u of
        Inl e \<Rightarrow> Inl e
      | Inr sheet_names \<Rightarrow>
          if length sheet_names = 1 then read_sheet u (sheet_names ! 0)
          else Inl (ValueError multiple_sheets_message))"

definition read_excel :: "upload \<Rightarrow> exn + dataframe" where
  "read_excel u =
     (case read_first u of
        Inr df \<Rightarrow> Inr df
      | Inl e \<Rightarrow>
          (case second_attempt u of
             Inr df \<Rightarrow> Inr df
           | Inl e_inner \<Rightarrow> Inl (ValueError (unreadable_prefix @ str_exn e_inner))))"

subsection \<open>Validation\<close>

text \<open>
  Step 4: \<open>missing_columns = required_columns - set(df.columns)\<close>, joined in the order in
  which the set is iterated.
\<close>

definition missing_columns :: "library \<Rightarrow> dataframe \<Rightarrow> string list" where
  "missing_columns lib df = filter (\<lambda>c. c \<notin> set (columns df)) (required_order lib)"

subsection \<open>Annotation\<close>

text \<open>
  \<open>df[c] = values\<close>: the column is replaced where it stands, or added as the last one.
\<close>

definition setitem :: "dataframe \<Rightarrow> string \<Rightarrow> cell list \<Rightarrow> dataframe" where
  "setitem df c vs =
     (if c \<in> set (columns df)
      then df\<lparr>rows := map (\<lambda>(r, v). (fst r, (snd r)[length (takeWhile (\<lambda>x. x \<noteq> c) (columns df)) := v]))
                          (zip (rows df) vs)\<rparr>
      else df\<lparr>columns := columns df @ [c],
              rows := map (\<lambda>(r, v). (fst r, snd r @ [v])) (zip (rows df) vs)\<rparr>)"

text \<open>\<open>df["Highlight"] = df.apply(lambda row: ..., axis=1)\<close>\<close>

definition annotate :: "dataframe \<Rightarrow> dataframe" where
  "annotate df = setitem df ''Highlight'' (map (\<lambda>r. Bool (Highlight df r)) (rows df))"

subsection \<open>Composition\<close>

definition max_row :: "sheet \<Rightarrow> nat" where
  "max_row ws = max 1 (length (grid ws))"

text \<open>\<open>ws[r]\<close> and \<open>ws.cell(row=r, column=c).value\<close>; a cell that does not exist is empty.\<close>

definition row_values :: "sheet \<Rightarrow> nat \<Rightarrow> cell list" where
  "row_values ws r = (if 1 \<le> r \<and> r \<le> length (grid ws) then grid ws ! (r - 1) else [])"

definition cell_value :: "sheet \<Rightarrow> nat \<Rightarrow> nat \<Rightarrow> cell" where
  "cell_value ws r c =
     (let vs = row_values ws r in if 1 \<le> c \<and> c \<le> length vs then vs ! (c - 1) else Blank)"

text \<open>Writing the values of a row from column 1 on; the rows above it come to exist.\<close>

definition put_row :: "nat \<Rightarrow> cell list \<Rightarrow> cell list list \<Rightarrow> cell list list" where
  "put_row r vs g = (g @ replicate (r - length g) [])[r - 1 := vs]"

text \<open>
  The loop over \<open>df.iterrows()\<close> that fills the row \<open>r_idx + 2\<close> of every row with a true
  \<open>Highlight\<close>, if the sheet has that row.
\<close>

definition highlight_rows :: "dataframe \<Rightarrow> sheet \<Rightarrow> sheet" where
  "highlight_rows df ws =
     foldl (\<lambda>w r. if getitem (columns df) (snd r) ''Highlight'' = Bool True \<and> fst r + 2 \<le> max_row w
                   then w\<lparr>fills := List.insert (fst r + 2) (fills w)\<rparr> else w)
       ws (rows df)"

text \<open>
  The branch of \<open>.xls\<close>: \<open>openpyxl.Workbook()\<close> with its one sheet, titled after the first
  sheet of the input if its names can be listed, and written from the frame: the column
  labels in row 1, every row at its index label plus 2.
\<close>

definition new_sheet :: "string \<Rightarrow> sheet" where
  "new_sheet t = \<lparr>title = t, grid = [], fills = [], blue = []\<rparr>"

definition first_sheet_title :: "upload \<Rightarrow> string \<times> (level \<times> event) list" where
  "first_sheet_title u =
     (case excel_file u of
        Inr (n # ns) \<Rightarrow> (n, [])
      | Inr [] \<Rightarrow> (''Sheet'', [])
      | Inl e \<Rightarrow> (''Sheet'', [(WARNING, SheetNameFallback)]))"

definition rebuild_sheet :: "string \<Rightarrow> dataframe \<Rightarrow> sheet" where
  "rebuild_sheet t df =
     (let g0 = put_row 1 (map Text (columns df)) [];
          g = foldl (\<lambda>g r. put_row (fst r + 2) (snd r) g) g0 (rows df)
      in highlight_rows df ((new_sheet t)\<lparr>grid := g\<rparr>))"

text \<open>
  \<open>load_workbook(input_path, keep_vba=...)\<close>: the workbook in the file, with its VBA
  archive only if asked to keep it.
\<close>

definition load_workbook :: "upload \<Rightarrow> bool \<Rightarrow> exn + workbook" where
  "load_workbook u keep_vba =
     (case open_error u of
        Some e \<Rightarrow> Inl e
      | None \<Rightarrow> Inr ((document u)\<lparr>vba_archive := if keep_vba then vba_archive (document u) else None\<rparr>))"

text \<open>
  The primary sheet, the workbook, the output file name and the log of the two branches;
  \<open>wb\<close> stays \<open>None\<close> for any other extension, and \<open>wb.sheetnames\<close> raises.
\<close>

definition open_primary ::
  "upload \<Rightarrow> string \<Rightarrow> string \<Rightarrow> dataframe \<Rightarrow> exn + (sheet \<times> workbook \<times> string \<times> (level \<times> event) list)" where
  "open_primary u file_base_name file_ext df =
     (if file_ext = ''.xls'' then
        (let (t, lg) = first_sheet_title u; ws = rebuild_sheet t df
         in Inr (ws, \<lparr>sheets = [ws], vba_archive = None\<rparr>, ''result_'' @ file_base_name @ ''.xlsx'',
                 (INFO, RebuildXls) # lg))
      else if file_ext \<in> set [''.xlsx'', ''.xlsm''] then
        (case load_workbook u (file_ext = ''.xlsm'') of
           Inl e \<Rightarrow> Inl e
         | Inr wb \<Rightarrow>
             (case sheets wb of
                [] \<Rightarrow> Inl (OtherError ''list index out of range'')
              | s # rest \<Rightarrow>
                  (let ws = highlight_rows df s
                   in Inr (ws, wb\<lparr>sheets := ws # rest\<rparr>, ''result_'' @ filename u,
                           [(INFO, if file_ext = ''.xlsm'' then KeepVba else LoadXlsx)]))))
      else Inl (OtherError ([CHR 0x27] @ ''NoneType'' @ [CHR 0x27] @ '' object has no attribute ''
                          @ [CHR 0x27] @ ''sheetnames'' @ [CHR 0x27])))"

text \<open>\<open>if "..." in wb.sheetnames: wb.remove(wb["..."])\<close>: the first sheet of that title goes.\<close>

fun remove_titled :: "string \<Rightarrow> sheet list \<Rightarrow> sheet list" where
  "remove_titled t [] = []"
| "remove_titled t (s # ss) = (if title s = t then ss else s # remove_titled t ss)"

definition remove_summary :: "workbook \<Rightarrow> workbook \<times> (level \<times> event) list" where
  "remove_summary wb =
     (if summary_title \<in> set (map title (sheets wb))
      then (wb\<lparr>sheets := remove_titled summary_title (sheets wb)\<rparr>, [(INFO, OldSummaryRemoved)])
      else (wb, []))"

text \<open>
  \<open>wb.create_sheet(t)\<close>: a new last sheet; openpyxl changes a title that is taken.
\<close>

definition create_title :: "library \<Rightarrow> workbook \<Rightarrow> string \<Rightarrow> string" where
  "create_title lib wb t =
     (if t \<in> set (map title (sheets wb)) then avoid_duplicate_name lib (map title (sheets wb)) t else t)"

text \<open>The header of the summary sheet and one row for every row of the summary.\<close>

definition summary_rows :: "(cell \<times> cell \<times> nat) list \<Rightarrow> cell list list" where
  "summary_rows sm =
     [Text ''Name'', Text ''Data Type'', Text ''Count''] # map (\<lambda>(n, t, c). [n, t, Num (int c)]) sm"

text \<open>
  The column of the first cell of row 1 whose value is \<open>"Name"\<close>; \<open>None\<close> stands for the
  \<open>-1\<close> of the source.
\<close>

definition name_col_idx :: "sheet \<Rightarrow> nat option" where
  "name_col_idx ws =
     (let header = row_values ws 1
      in if Text ''Name'' \<in> set header
         then Some (Suc (length (takeWhile (\<lambda>v. v \<noteq> Text ''Name'') header))) else None)"

text \<open>
  The first row from 2 on whose cell in the Name column is not empty and equals the
  Name of the summary row once both are stripped and lowered.
\<close>

definition found_row :: "library \<Rightarrow> sheet \<Rightarrow> nat \<Rightarrow> cell \<Rightarrow> nat option" where
  "found_row lib ws col v =
     find (\<lambda>j. cell_value ws j col \<noteq> Blank
                \<and> str_strip_lower lib (cell_value ws j col) = str_strip_lower lib v)
       [2 ..< Suc (max_row ws)]"

definition add_links :: "library \<Rightarrow> sheet \<Rightarrow> nat \<Rightarrow> sheet \<Rightarrow> sheet" where
  "add_links lib ws col sws =
     foldl (\<lambda>s i. let v = cell_value s i 1
                   in if v = Blank then s
                      else (case found_row lib ws col v of
                              None \<Rightarrow> s
                            | Some j \<Rightarrow>
                                s\<lparr>grid := (grid s)[i - 1 :=
                                      (grid s ! (i - 1))[0 := Text (hyperlink lib (title ws) col j v)]],
                                  blue := blue s @ [(i, 1)]\<rparr>))
       sws [2 ..< Suc (max_row sws)]"

text \<open>
  The new summary sheet: header and rows, then the search for the Name column in row 1
  of the primary sheet; without it the links are skipped with a warning.
\<close>

definition summary_sheet ::
  "library \<Rightarrow> sheet \<Rightarrow> workbook \<Rightarrow> (cell \<times> cell \<times> nat) list \<Rightarrow> sheet \<times> (level \<times> event) list" where
  "summary_sheet lib ws wb1 sm =
     (let summary_ws = (new_sheet (create_title lib wb1 summary_title))\<lparr>grid := summary_rows sm\<rparr>
      in case name_col_idx ws of
           None \<Rightarrow> (summary_ws, [(WARNING, NoNameColumn (title ws))])
         | Some col \<Rightarrow> (add_links lib ws col summary_ws, [(INFO, LinksAdded)]))"

text \<open>Steps 6 and 7.\<close>

definition compose ::
  "library \<Rightarrow> upload \<Rightarrow> string \<Rightarrow> string \<Rightarrow> dataframe \<Rightarrow> (cell \<times> cell \<times> nat) list
     \<Rightarrow> exn + (string \<times> workbook \<times> (level \<times> event) list)" where
  "compose lib u file_base_name file_ext df sm =
     (case open_primary u file_base_name file_ext df of
        Inl e \<Rightarrow> Inl e
      | Inr (ws, wb, output_filename, lg1) \<Rightarrow>
          (let (wb1, lg2) = remove_summary wb;
               (summary_ws, lg3) = summary_sheet lib ws wb1 sm;
               wb2 = wb1\<lparr>sheets := sheets wb1 @ [summary_ws]\<rparr>
           in case save_error u of
                Some e \<Rightarrow> Inl e
              | None \<Rightarrow>
                  Inr (output_filename, wb2,
                       lg1 @ lg2 @ [(INFO, SummaryWritten)] @ lg3
                         @ [(INFO, Saved (''temp_output/'' @ output_filename))])))"

subsection \<open>The request\<close>

text \<open>
  The body of the \<open>try\<close> block: a response, or the exception that leaves it. The
  analysis of a frame without rows ends in the exception \<open>apply_empty\<close> of the library.
\<close>

definition process :: "library \<Rightarrow> upload \<Rightarrow> exn + outcome" where
  "process lib u =
     (if file_size u > 10 * 1024 * 1024 then Inr (bad_request size_limit_message)
      else case store_error u of
        Some e \<Rightarrow> Inl e
      | None \<Rightarrow>
          (let (file_base_name, ext) = splitext (filename u); file_ext = lower lib ext
           in if file_ext \<notin> set supported_extensions then Inr (bad_request unsupported_message)
              else case read_excel u of
                Inl e \<Rightarrow> Inl e
              | Inr df0 \<Rightarrow>
                  if \<not> {''Name'', ''Data Type''} \<subseteq> set (columns df0)
                  then Inr (bad_request (missing_columns_prefix @ join '', '' (missing_columns lib df0)))
                  else
                    (let df = dropna df0
                     in case (if rows df = [] then apply_empty lib else None) of
                          Some e \<Rightarrow> Inl e
                        | None \<Rightarrow>
                            (case compose lib u file_base_name file_ext (annotate df) (summary df) of
                               Inl e \<Rightarrow> Inl e
                             | Inr (output_filename, wb, lg) \<Rightarrow>
                                 Inr \<lparr>reply = \<lparr>status_code = 200, success = True, message = done_message,
                                               download_filename = Some output_filename\<rparr>,
                                      saved = Some (''temp_output/'' @ output_filename, wb),
                                      logs = lg\<rparr>))))"

text \<open>The two \<open>except\<close> clauses: \<open>ValueError\<close> first, then every other exception.\<close>

definition upload_file :: "library \<Rightarrow> upload \<Rightarrow> outcome" where
  "upload_file lib u =
     (case process lib u of
        Inr out \<Rightarrow> out
      | Inl (ValueError m) \<Rightarrow> bad_request m
      | Inl (OtherError m) \<Rightarrow> internal_error m)"

text \<open>
  A request that passes the checks before the file is read: the size is within the limit,
  the file is stored and its extension is supported.
\<close>

definition accepted :: "library \<Rightarrow> upload \<Rightarrow> bool" where
  "accepted lib u =
     (\<not> file_size u > 10 * 1024 * 1024 \<and> store_error u = None
      \<and> lower lib (snd (splitext (filename u))) \<in> set supported_extensions)"

section \<open>Example inputs\<close>

subsection \<open>Example frames\<close>

definition mixed_frame :: dataframe where
  "mixed_frame = \<lparr>columns = [''Name'', ''Data Type''],
     rows = [(0, [Text ''x'', Text ''int'']), (1, [Blank, Text ''int'']), (2, [Text ''x'', Text ''int'']),
             (3, [Text ''x'', Text ''str'']), (4, [Text ''y'', Text ''str''])]\<rparr>"

definition scenario_A :: dataframe where
  "scenario_A = \<lparr>columns = [''Name'', ''Data Type''],
     rows = [(0, [Text ''x'', Text ''int'']), (1, [Text ''x'', Text ''int'']),
             (2, [Text ''x'', Text ''str''])]\<rparr>"

definition tie_frame :: dataframe where
  "tie_frame = \<lparr>columns = [''Name'', ''Data Type''],
     rows = [(0, [Text ''x'', Text ''str'']), (1, [Text ''x'', Text ''int''])]\<rparr>"

subsection \<open>Example uploads\<close>

definition ascii_lower :: "char \<Rightarrow> char" where
  "ascii_lower c =
     (case map_of (zip ''ABCDEFGHIJKLMNOPQRSTUVWXYZ'' ''abcdefghijklmnopqrstuvwxyz'') c of
        Some d \<Rightarrow> d | None \<Rightarrow> c)"

definition plain_library :: library where
  "plain_library =
     \<lparr>lower = map ascii_lower,
      str_strip_lower = (\<lambda>v. case v of Text s \<Rightarrow> map ascii_lower s | _ \<Rightarrow> []),
      hyperlink = (\<lambda>t c r v. ''=HYPERLINK'' @ (case v of Text s \<Rightarrow> s | _ \<Rightarrow> [])),
      avoid_duplicate_name = (\<lambda>names t. t @ ''1''),
      required_order = [''Name'', ''Data Type''],
      apply_empty = Some (OtherError ([CHR 0x27] @ ''Highlight'' @ [CHR 0x27]))\<rparr>"

definition empty_workbook :: workbook where
  "empty_workbook = \<lparr>sheets = [], vba_archive = None\<rparr>"

definition two_sheets_upload :: upload where
  "two_sheets_upload =
     \<lparr>filename = ''book.xlsx'', file_size = 2048, store_error = None,
      read_first = Inl (OtherError ''engine''),
      excel_file = Inr [''A'', ''B''],
      read_sheet = (\<lambda>n. Inr scenario_A),
      open_error = None, document = empty_workbook, save_error = None\<rparr>"

definition one_sheet_upload :: upload where
  "one_sheet_upload = two_sheets_upload\<lparr>excel_file := Inr [''A'']\<rparr>"


definition data_sheet :: sheet where
  "data_sheet =
     \<lparr>title = ''Data'',
      grid = [[Text ''Name'', Text ''Data Type''], [Text ''x'', Text ''int''],
              [Text ''x'', Text ''int''], [Text ''x'', Text ''str'']],
      fills = [], blue = []\<rparr>"

definition processed_workbook :: workbook where
  "processed_workbook =
     \<lparr>sheets = [data_sheet, \<lparr>title = summary_title, grid = [[Text ''old'']], fills = [], blue = []\<rparr>],
      vba_archive = Some ''vbaProject.bin''\<rparr>"

definition xls_upload :: upload where
  "xls_upload =
     \<lparr>filename = ''book.XLS'', file_size = 2048, store_error = None,
      read_first = Inr scenario_A, excel_file = Inr [''Data''],
      read_sheet = (\<lambda>n. Inr scenario_A),
      open_error = Some (OtherError ''File is not a zip file''), document = empty_workbook,
      save_error = None\<rparr>"

definition xlsm_upload :: upload where
  "xlsm_upload =
     \<lparr>filename = ''macro.xlsm'', file_size = 2048, store_error = None,
      read_first = Inr scenario_A, excel_file = Inr [''Data'', ''old''],
      read_sheet = (\<lambda>n. Inr scenario_A),
      open_error = None, document = processed_workbook, save_error = None\<rparr>"

definition reprocessed_workbook :: workbook where
  "reprocessed_workbook =
     \<lparr>sheets =
        [data_sheet\<lparr>fills := [4]\<rparr>,
         \<lparr>title = summary_title,
          grid = [[Text ''Name'', Text ''Data Type'', Text ''Count''],
                  [Text ''=HYPERLINKx'', Text ''int'', Num 2],
                  [Text ''=HYPERLINKx'', Text ''str'', Num 1]],
          fills = [], blue = [(2, 1), (3, 1)]\<rparr>],
      vba_archive = Some ''vbaProject.bin''\<rparr>"

definition rerun_upload :: upload where
  "rerun_upload = xlsm_upload\<lparr>document := reprocessed_workbook\<rparr>"

text \<open>
  A sheet whose cell A1 holds the formula \<open>="Name"\<close>: pandas reads the cached value
  \<open>Name\<close> of the cell as the column label, openpyxl gives the text of the formula as the
  value of the cell.
\<close>

definition formula_header_sheet :: sheet where
  "formula_header_sheet =
     \<lparr>title = ''Data'',
      grid = [[Text (''='' @ [CHR 0x22] @ ''Name'' @ [CHR 0x22]), Text ''Data Type''],
              [Text ''x'', Text ''str''], [Text ''x'', Text ''int'']],
      fills = [], blue = []\<rparr>"

definition formula_header_upload :: upload where
  "formula_header_upload =
     \<lparr>filename = ''report.xlsx'', file_size = 2048, store_error = None,
      read_first = Inr tie_frame, excel_file = Inr [''Data''],
      read_sheet = (\<lambda>n. Inr tie_frame),
      open_error = None, document = \<lparr>sheets = [formula_header_sheet], vba_archive = None\<rparr>,
      save_error = None\<rparr>"

definition failing_save_upload :: upload where
  "failing_save_upload = xlsm_upload\<lparr>save_error := Some (OtherError ''disk full'')\<rparr>"

section \<open>Properties of the analysis\<close>

lemmas frame_defs = dropna_def name_of_def dtype_of_def getitem_def

lemma set_unique [simp]: "set (unique xs) = set xs"
  by (induction xs) auto

lemma distinct_unique [simp]: "distinct (unique xs)"
  by (induction xs) auto

lemma exists_max_count:
  "ys \<noteq> [] \<Longrightarrow> \<exists>x \<in> set ys. \<forall>y \<in> set ys. count_list ys y \<le> count_list ys x"
proof -
  assume ne: "ys \<noteq> []"
  let ?S = "count_list ys ` set ys"
  have fin: "finite ?S" by simp
  have nonempty: "?S \<noteq> {}" using ne by simp
  have "Max ?S \<in> ?S" using fin nonempty by (rule Max_in)
  then obtain x where x: "x \<in> set ys" "count_list ys x = Max ?S" by auto
  have "\<forall>y \<in> set ys. count_list ys y \<le> count_list ys x"
    using x fin by (simp)
  with x show ?thesis by blast
qed

lemma set_mode:
  "set (mode xs) = {x \<in> set (filter (\<lambda>x. x \<noteq> Blank) xs). \<forall>y \<in> set (filter (\<lambda>x. x \<noteq> Blank) xs).
      count_list (filter (\<lambda>x. x \<noteq> Blank) xs) y \<le> count_list (filter (\<lambda>x. x \<noteq> Blank) xs) x}"
  unfolding mode_def Let_def by (simp only: set_sort set_unique set_filter)

lemma filter_noblank: "Blank \<notin> set xs \<Longrightarrow> filter (\<lambda>x. x \<noteq> Blank) xs = xs"
  by (induction xs) auto

lemma set_mode_noblank:
  "Blank \<notin> set xs \<Longrightarrow> set (mode xs) = {x. is_mode xs x}"
  by (auto simp: set_mode filter_noblank is_mode_def)

lemma mode_nonempty: "Blank \<notin> set xs \<Longrightarrow> xs \<noteq> [] \<Longrightarrow> mode xs \<noteq> []"
proof -
  assume a: "Blank \<notin> set xs" "xs \<noteq> []"
  from exists_max_count[OF a(2)] obtain x where "is_mode xs x" by (auto simp: is_mode_def)
  then have "x \<in> set (mode xs)" using a(1) by (simp add: set_mode_noblank)
  then show ?thesis by auto
qed

lemma agg_mode_is_mode: "Blank \<notin> set xs \<Longrightarrow> xs \<noteq> [] \<Longrightarrow> is_mode xs (agg_mode xs)"
proof -
  assume a: "Blank \<notin> set xs" "xs \<noteq> []"
  then obtain m ms where m: "mode xs = m # ms" using mode_nonempty by (cases "mode xs") auto
  then have "m \<in> set (mode xs)" by simp
  then have "is_mode xs m" using a(1) by (simp add: set_mode_noblank)
  then show ?thesis using m by (simp add: agg_mode_def)
qed

lemma agg_mode_least:
  "Blank \<notin> set xs \<Longrightarrow> is_mode xs m \<Longrightarrow> cell_key (agg_mode xs) \<le> cell_key m"
proof -
  assume a: "Blank \<notin> set xs" "is_mode xs m"
  then have min: "m \<in> set (mode xs)" by (simp add: set_mode_noblank)
  then obtain h t where h: "mode xs = h # t" by (cases "mode xs") auto
  have "sorted (map cell_key (mode xs))" unfolding mode_def Let_def by (rule sorted_sort_key)
  then have "\<forall>y \<in> set t. cell_key h \<le> cell_key y" using h by simp
  then have "cell_key h \<le> cell_key m" using min h by auto
  then show ?thesis using h by (simp add: agg_mode_def)
qed

lemma columns_dropna [simp]: "columns (dropna df) = columns df"
  by (simp add: dropna_def)

lemma name_of_dropna [simp]: "name_of (dropna df) = name_of df"
  by (rule ext) (simp add: name_of_def)

lemma dtype_of_dropna [simp]: "dtype_of (dropna df) = dtype_of df"
  by (rule ext) (simp add: dtype_of_def)

lemma rows_dropna:
  "r \<in> set (rows (dropna df)) \<longleftrightarrow> r \<in> set (rows df) \<and> name_of df r \<noteq> Blank \<and> dtype_of df r \<noteq> Blank"
  by (auto simp: dropna_def)

lemma analysed_dropna: "analysed (dropna df)"
  by (simp add: analysed_def rows_dropna)

lemma group_values_noblank: "analysed df \<Longrightarrow> Blank \<notin> set (group_values df n)"
  by (auto simp: analysed_def group_values_def)

lemma group_values_member:
  "r \<in> set (rows df) \<Longrightarrow> dtype_of df r \<in> set (group_values df (name_of df r))"
  by (auto simp: group_values_def)

lemma common_types_row:
  "analysed df \<Longrightarrow> r \<in> set (rows df) \<Longrightarrow>
   common_types df (name_of df r) = Some (agg_mode (group_values df (name_of df r)))"
  by (auto simp: common_types_def analysed_def)

lemma dominant_is_mode:
  assumes "analysed df" "r \<in> set (rows df)"
  shows "is_mode (group_values df (name_of df r)) (agg_mode (group_values df (name_of df r)))"
proof -
  have "group_values df (name_of df r) \<noteq> []" using group_values_member[OF assms(2)] by auto
  then show ?thesis using group_values_noblank[OF assms(1)] by (simp add: agg_mode_is_mode)
qed

lemma Highlight_row:
  "analysed df \<Longrightarrow> r \<in> set (rows df) \<Longrightarrow>
   Highlight df r = (dtype_of df r \<noteq> agg_mode (group_values df (name_of df r)))"
  by (simp add: Highlight_def dict_get_def common_types_row)

lemma single_value_mode:
  assumes "is_mode xs m" "\<forall>y \<in> set xs. y = v"
  shows "m = v"
  using assms by (auto simp: is_mode_def)

text \<open>
  C1. Once the rows without a Name or a Data Type are dropped, the dictionary
  \<open>common_types\<close> holds for the Name of every row a dominant value of its group, and the
  row is flagged exactly when its Data Type differs from that value. A row whose group
  has a single Data Type is not flagged.
\<close>

theorem flagged_iff_differs_from_mode:
  assumes "r \<in> set (rows (dropna df))"
  shows "(\<exists>m. common_types (dropna df) (name_of (dropna df) r) = Some m
            \<and> is_mode (group_values (dropna df) (name_of (dropna df) r)) m
            \<and> (Highlight (dropna df) r \<longleftrightarrow> dtype_of (dropna df) r \<noteq> m))
       \<and> ((\<forall>r' \<in> set (rows (dropna df)). name_of (dropna df) r' = name_of (dropna df) r
              \<longrightarrow> dtype_of (dropna df) r' = dtype_of (dropna df) r)
            \<longrightarrow> \<not> Highlight (dropna df) r)"
proof -
  let ?d = "dropna df"
  let ?g = "group_values ?d (name_of ?d r)"
  have an: "analysed ?d" by (rule analysed_dropna)
  have ct: "common_types ?d (name_of ?d r) = Some (agg_mode ?g)"
    using an assms by (rule common_types_row)
  have im: "is_mode ?g (agg_mode ?g)" using an assms by (rule dominant_is_mode)
  have hl: "Highlight ?d r = (dtype_of ?d r \<noteq> agg_mode ?g)" using an assms by (rule Highlight_row)
  have single: "\<not> Highlight ?d r"
    if "\<forall>r' \<in> set (rows ?d). name_of ?d r' = name_of ?d r \<longrightarrow> dtype_of ?d r' = dtype_of ?d r"
  proof -
    have "\<forall>y \<in> set ?g. y = dtype_of ?d r" using that by (auto simp: group_values_def)
    with im have "agg_mode ?g = dtype_of ?d r" by (rule single_value_mode)
    then show ?thesis using hl by simp
  qed
  from ct im hl single show ?thesis by blast
qed

theorem flagged_iff_differs_from_mode_witness:
  "(4, [Text ''y'', Text ''str'']) \<in> set (rows (dropna mixed_frame))
   \<and> \<not> Highlight (dropna mixed_frame) (4, [Text ''y'', Text ''str''])"
  using flagged_iff_differs_from_mode [of "(4, [Text ''y'', Text ''str''])" mixed_frame]
  by (simp add: mixed_frame_def frame_defs)

lemma count_list_map_filter: "count_list (map f xs) y = length (filter (\<lambda>x. f x = y) xs)"
  by (induction xs) auto

lemma count_list_filter: "count_list (filter P xs) k = (if P k then count_list xs k else 0)"
  by (induction xs) auto

lemma sum_count_filter:
  assumes "distinct ks" "set ps \<subseteq> set ks"
  shows "sum_list (map (count_list ps) (filter P ks)) = length (filter P ps)"
proof -
  have "sum_list (map (count_list ps) (filter P ks)) = sum (count_list ps) (set (filter P ks))"
    using assms(1) by (simp add: sum_list_distinct_conv_sum_set)
  also have "\<dots> = sum (count_list (filter P ps)) (set ks)"
    by (simp add: count_list_filter sum.If_cases Int_def conj_commute cong: conj_cong)
  also have "\<dots> = length (filter P ps)"
    using assms(2) by (intro sum_count_set) auto
  finally show ?thesis .
qed

lemma set_inconsistent_names:
  "set (inconsistent_names df) = name_of df ` {r \<in> set (rows df). Highlight df r}"
  by (auto simp: inconsistent_names_def)

lemma summary_alt:
  "summary df = map (\<lambda>p. (fst p, snd p, count_list (map (pair_of df) (selected df)) p)) (summary_keys df)"
  by (simp add: summary_def summary_keys_def Let_def)

lemma summary_pairs: "map (\<lambda>(n, t, c). (n, t)) (summary df) = summary_keys df"
  by (simp add: summary_alt o_def)

lemma distinct_summary_keys: "distinct (summary_keys df)"
  by (simp add: summary_keys_def)

lemma set_summary_keys: "set (summary_keys df) = pair_of df ` set (selected df)"
  by (simp add: summary_keys_def)

lemma selected_filter_name:
  "n \<in> set (inconsistent_names df) \<Longrightarrow>
   filter (\<lambda>r. name_of df r = n \<and> Q r) (selected df) = filter (\<lambda>r. name_of df r = n \<and> Q r) (rows df)"
  unfolding selected_def filter_filter by (rule filter_cong) auto

lemma summary_key_name: "(n, t) \<in> set (summary_keys df) \<Longrightarrow> n \<in> set (inconsistent_names df)"
  by (auto simp: set_summary_keys selected_def pair_of_def)

lemma summary_count:
  assumes "(n, t, c) \<in> set (summary df)"
  shows "c = length (filter (\<lambda>r. name_of df r = n \<and> dtype_of df r = t) (rows df))"
proof -
  from assms have k: "(n, t) \<in> set (summary_keys df)"
    and c: "c = count_list (map (pair_of df) (selected df)) (n, t)"
    by (auto simp: summary_alt)
  have "c = length (filter (\<lambda>r. name_of df r = n \<and> dtype_of df r = t) (selected df))"
    using c by (simp add: count_list_map_filter pair_of_def)
  then show ?thesis using selected_filter_name[OF summary_key_name[OF k], of "\<lambda>r. dtype_of df r = t"]
    by simp
qed

lemma summary_sum:
  assumes "n \<in> fst ` set (summary df)"
  shows "sum_list (map (\<lambda>(n', t, c). c) (filter (\<lambda>(n', t, c). n' = n) (summary df)))
         = length (filter (\<lambda>r. name_of df r = n) (rows df))"
proof -
  let ?ps = "map (pair_of df) (selected df)"
  from assms obtain t where "(n, t) \<in> set (summary_keys df)" by (force simp: summary_alt)
  then have inc: "n \<in> set (inconsistent_names df)" by (rule summary_key_name)
  have "map (\<lambda>(n', t, c). c) (filter (\<lambda>(n', t, c). n' = n) (summary df))
        = map (count_list ?ps) (filter (\<lambda>p. fst p = n) (summary_keys df))"
    by (simp add: summary_alt filter_map o_def)
  then have "sum_list (map (\<lambda>(n', t, c). c) (filter (\<lambda>(n', t, c). n' = n) (summary df)))
        = length (filter (\<lambda>p. fst p = n) ?ps)"
    using sum_count_filter[OF distinct_summary_keys, of ?ps df "\<lambda>p. fst p = n"]
    by (simp add: set_summary_keys)
  also have "\<dots> = length (filter (\<lambda>r. name_of df r = n \<and> True) (selected df))"
    by (simp add: filter_map o_def pair_of_def)
  also have "\<dots> = length (filter (\<lambda>r. name_of df r = n \<and> True) (rows df))"
    using selected_filter_name[OF inc, of "\<lambda>r. True"] by simp
  finally show ?thesis by simp
qed

lemma mem_inconsistent_names:
  "n \<in> set (inconsistent_names df) \<longleftrightarrow> (\<exists>r' \<in> set (rows df). name_of df r' = n \<and> Highlight df r')"
  unfolding set_inconsistent_names by blast

lemma mem_selected:
  "r \<in> set (selected df) \<longleftrightarrow>
   r \<in> set (rows df) \<and> (\<exists>r' \<in> set (rows df). name_of df r' = name_of df r \<and> Highlight df r')"
  by (simp add: selected_def mem_inconsistent_names)

lemma mem_summary_keys:
  "(n, t) \<in> set (summary_keys df) \<longleftrightarrow>
   (\<exists>r \<in> set (rows df). name_of df r = n \<and> dtype_of df r = t
      \<and> (\<exists>r' \<in> set (rows df). name_of df r' = n \<and> Highlight df r'))"
proof -
  have "(n, t) \<in> set (summary_keys df) \<longleftrightarrow> (\<exists>r \<in> set (selected df). name_of df r = n \<and> dtype_of df r = t)"
    unfolding set_summary_keys pair_of_def by blast
  also have "\<dots> \<longleftrightarrow> (\<exists>r \<in> set (rows df). name_of df r = n \<and> dtype_of df r = t
      \<and> (\<exists>r' \<in> set (rows df). name_of df r' = n \<and> Highlight df r'))"
    by (metis mem_selected)
  finally show ?thesis .
qed

lemmas analysis_defs = summary_def selected_def inconsistent_names_def Highlight_def
  common_types_def dict_get_def agg_mode_def mode_def group_values_def pair_of_def

text \<open>
  C2. The summary has exactly one row for every pair of a Name and a Data Type that occurs
  among the analysed rows whose Name has a flagged row, the rows of the dominant value
  included; its count is the number of analysed rows with that pair, and the counts of a
  Name of the summary add up to the number of analysed rows of that Name.
\<close>

theorem summary_rows_and_counts:
  "distinct (map (\<lambda>(n, t, c). (n, t)) (summary (dropna df)))
   \<and> (\<forall>n t. (n, t) \<in> set (map (\<lambda>(n, t, c). (n, t)) (summary (dropna df))) \<longleftrightarrow>
          (\<exists>r \<in> set (rows (dropna df)). name_of (dropna df) r = n \<and> dtype_of (dropna df) r = t
             \<and> (\<exists>r' \<in> set (rows (dropna df)). name_of (dropna df) r' = n \<and> Highlight (dropna df) r')))
   \<and> (\<forall>(n, t, c) \<in> set (summary (dropna df)).
          c = length (filter (\<lambda>r. name_of (dropna df) r = n \<and> dtype_of (dropna df) r = t) (rows (dropna df))))
   \<and> (\<forall>n \<in> fst ` set (summary (dropna df)).
          sum_list (map (\<lambda>(n', t, c). c) (filter (\<lambda>(n', t, c). n' = n) (summary (dropna df))))
          = length (filter (\<lambda>r. name_of (dropna df) r = n) (rows (dropna df))))"
proof (intro conjI)
  show "distinct (map (\<lambda>(n, t, c). (n, t)) (summary (dropna df)))"
    unfolding summary_pairs by (rule distinct_summary_keys)
  show "\<forall>n t. (n, t) \<in> set (map (\<lambda>(n, t, c). (n, t)) (summary (dropna df))) \<longleftrightarrow>
          (\<exists>r \<in> set (rows (dropna df)). name_of (dropna df) r = n \<and> dtype_of (dropna df) r = t
             \<and> (\<exists>r' \<in> set (rows (dropna df)). name_of (dropna df) r' = n \<and> Highlight (dropna df) r'))"
    unfolding summary_pairs using mem_summary_keys by blast
  show "\<forall>(n, t, c) \<in> set (summary (dropna df)).
          c = length (filter (\<lambda>r. name_of (dropna df) r = n \<and> dtype_of (dropna df) r = t) (rows (dropna df)))"
    using summary_count by blast
  show "\<forall>n \<in> fst ` set (summary (dropna df)).
          sum_list (map (\<lambda>(n', t, c). c) (filter (\<lambda>(n', t, c). n' = n) (summary (dropna df))))
          = length (filter (\<lambda>r. name_of (dropna df) r = n) (rows (dropna df)))"
    using summary_sum by blast
qed

lemma summary_mixed_frame:
  "summary (dropna mixed_frame) = [(Text ''x'', Text ''int'', 2), (Text ''x'', Text ''str'', 1)]"
  by (simp add: mixed_frame_def frame_defs analysis_defs)

theorem summary_rows_and_counts_witness:
  "Text ''x'' \<in> fst ` set (summary (dropna mixed_frame))
   \<and> sum_list (map (\<lambda>(n', t, c). c) (filter (\<lambda>(n', t, c). n' = Text ''x'') (summary (dropna mixed_frame))))
      = length (filter (\<lambda>r. name_of (dropna mixed_frame) r = Text ''x'') (rows (dropna mixed_frame)))
   \<and> length (filter (\<lambda>r. name_of (dropna mixed_frame) r = Text ''x'') (rows (dropna mixed_frame))) = 3"
proof -
  have mem: "Text ''x'' \<in> fst ` set (summary (dropna mixed_frame))"
    by (simp add: summary_mixed_frame)
  have "\<forall>n \<in> fst ` set (summary (dropna mixed_frame)).
          sum_list (map (\<lambda>(n', t, c). c) (filter (\<lambda>(n', t, c). n' = n) (summary (dropna mixed_frame))))
          = length (filter (\<lambda>r. name_of (dropna mixed_frame) r = n) (rows (dropna mixed_frame)))"
    using summary_rows_and_counts [of mixed_frame] by blast
  from bspec [OF this mem] mem show ?thesis
    by (simp add: mixed_frame_def frame_defs)
qed

text \<open>
  On the three rows of scenario A the summary is not the single row of the minority value:
  it also holds the row of the dominant value, with count 2.
\<close>

theorem scenario_A_summary_counterexample:
  "summary (dropna scenario_A) \<noteq> [(Text ''x'', Text ''str'', 1)]
   \<and> (Text ''x'', dict_get (common_types (dropna scenario_A)) (Text ''x''), 2) \<in> set (summary (dropna scenario_A))"
  by (simp add: scenario_A_def frame_defs analysis_defs)

lemma dominant_in_summary:
  assumes "analysed df" "r \<in> set (rows df)" "Highlight df r"
  shows "\<exists>c>0. (name_of df r, dict_get (common_types df) (name_of df r), c) \<in> set (summary df)"
proof -
  let ?n = "name_of df r"
  let ?m = "agg_mode (group_values df ?n)"
  have m: "dict_get (common_types df) ?n = ?m"
    using assms(1,2) by (simp add: dict_get_def common_types_row)
  have "is_mode (group_values df ?n) ?m" using assms(1,2) by (rule dominant_is_mode)
  then have "?m \<in> set (group_values df ?n)" by (simp add: is_mode_def)
  then obtain r1 where r1: "r1 \<in> set (rows df)" "name_of df r1 = ?n" "dtype_of df r1 = ?m"
    by (auto simp: group_values_def)
  then have k: "(?n, ?m) \<in> set (summary_keys df)"
    using assms(2,3) unfolding mem_summary_keys by blast
  let ?c = "count_list (map (pair_of df) (selected df)) (?n, ?m)"
  have "(?n, ?m) \<in> set (map (pair_of df) (selected df))" using k by (simp add: set_summary_keys)
  then have "?c \<noteq> 0" by (simp add: count_list_0_iff)
  then have "0 < ?c" by simp
  moreover have "(?n, ?m, ?c) \<in> set (summary df)" using k by (force simp: summary_alt)
  ultimately show ?thesis using m by auto
qed

text \<open>
  C3, amended. On the three rows of scenario A the dominant value of \<open>x\<close> is \<open>int\<close>, only
  the third row is flagged, and the summary is the two rows \<open>(x, int, 2)\<close> and
  \<open>(x, str, 1)\<close>. In general the summary holds a row for a pair of a Name and a Data
  Type exactly when the pair occurs among the analysed rows and the Name has a flagged
  row; the row of the dominant value of a flagged row's Name is among them.
\<close>

theorem summary_includes_dominant_rows:
  "dict_get (common_types (dropna scenario_A)) (Text ''x'') = Text ''int''
   \<and> map (Highlight (dropna scenario_A)) (rows (dropna scenario_A)) = [False, False, True]
   \<and> summary (dropna scenario_A) = [(Text ''x'', Text ''int'', 2), (Text ''x'', Text ''str'', 1)]
   \<and> (\<forall>df n t. (\<exists>c. (n, t, c) \<in> set (summary (dropna df))) \<longleftrightarrow>
          (\<exists>r \<in> set (rows (dropna df)). name_of (dropna df) r = n \<and> dtype_of (dropna df) r = t
             \<and> (\<exists>r' \<in> set (rows (dropna df)). name_of (dropna df) r' = n \<and> Highlight (dropna df) r')))
   \<and> (\<forall>df r. r \<in> set (rows (dropna df)) \<and> Highlight (dropna df) r \<longrightarrow>
          (\<exists>c>0. (name_of (dropna df) r, dict_get (common_types (dropna df)) (name_of (dropna df) r), c)
                   \<in> set (summary (dropna df))))"
proof (intro conjI)
  show "dict_get (common_types (dropna scenario_A)) (Text ''x'') = Text ''int''"
    by (simp add: scenario_A_def frame_defs analysis_defs)
  show "map (Highlight (dropna scenario_A)) (rows (dropna scenario_A)) = [False, False, True]"
    by (simp add: scenario_A_def frame_defs analysis_defs)
  show "summary (dropna scenario_A) = [(Text ''x'', Text ''int'', 2), (Text ''x'', Text ''str'', 1)]"
    by (simp add: scenario_A_def frame_defs analysis_defs)
  show "\<forall>df n t. (\<exists>c. (n, t, c) \<in> set (summary (dropna df))) \<longleftrightarrow>
          (\<exists>r \<in> set (rows (dropna df)). name_of (dropna df) r = n \<and> dtype_of (dropna df) r = t
             \<and> (\<exists>r' \<in> set (rows (dropna df)). name_of (dropna df) r' = n \<and> Highlight (dropna df) r'))"
  proof (intro allI)
    fix df n t
    have "(\<exists>c. (n, t, c) \<in> set (summary (dropna df))) \<longleftrightarrow> (n, t) \<in> set (summary_keys (dropna df))"
      by (force simp: summary_alt)
    then show "(\<exists>c. (n, t, c) \<in> set (summary (dropna df))) \<longleftrightarrow>
          (\<exists>r \<in> set (rows (dropna df)). name_of (dropna df) r = n \<and> dtype_of (dropna df) r = t
             \<and> (\<exists>r' \<in> set (rows (dropna df)). name_of (dropna df) r' = n \<and> Highlight (dropna df) r'))"
      unfolding mem_summary_keys .
  qed
  show "\<forall>df r. r \<in> set (rows (dropna df)) \<and> Highlight (dropna df) r \<longrightarrow>
          (\<exists>c>0. (name_of (dropna df) r, dict_get (common_types (dropna df)) (name_of (dropna df) r), c)
                   \<in> set (summary (dropna df)))"
    using dominant_in_summary [OF analysed_dropna] by blast
qed

theorem summary_includes_dominant_rows_witness:
  "(2, [Text ''x'', Text ''str'']) \<in> set (rows (dropna scenario_A))
   \<and> Highlight (dropna scenario_A) (2, [Text ''x'', Text ''str''])
   \<and> (\<exists>c>0. (Text ''x'', Text ''int'', c) \<in> set (summary (dropna scenario_A)))"
proof -
  have h: "(2, [Text ''x'', Text ''str'']) \<in> set (rows (dropna scenario_A))
     \<and> Highlight (dropna scenario_A) (2, [Text ''x'', Text ''str''])"
    by (simp add: scenario_A_def frame_defs analysis_defs)
  have g: "\<forall>df r. r \<in> set (rows (dropna df)) \<and> Highlight (dropna df) r \<longrightarrow>
          (\<exists>c>0. (name_of (dropna df) r, dict_get (common_types (dropna df)) (name_of (dropna df) r), c)
                   \<in> set (summary (dropna df)))"
    using summary_includes_dominant_rows by blast
  have n: "name_of (dropna scenario_A) (2, [Text ''x'', Text ''str'']) = Text ''x''"
    by (simp add: scenario_A_def frame_defs)
  have d: "dict_get (common_types (dropna scenario_A)) (Text ''x'') = Text ''int''"
    using summary_includes_dominant_rows by blast
  from g h have "\<exists>c>0. (name_of (dropna scenario_A) (2, [Text ''x'', Text ''str'']),
       dict_get (common_types (dropna scenario_A)) (name_of (dropna scenario_A) (2, [Text ''x'', Text ''str''])), c)
       \<in> set (summary (dropna scenario_A))" by blast
  then show ?thesis using h by (simp only: n d) 
qed

text \<open>
  Two values tied in a group: \<open>str\<close> is seen first, and the dominant value is \<open>int\<close>;
  the row of the value seen first is the one flagged.
\<close>

theorem tie_break_first_seen_counterexample:
  "group_values (dropna tie_frame) (Text ''x'') = [Text ''str'', Text ''int'']
   \<and> count_list (group_values (dropna tie_frame) (Text ''x'')) (Text ''str'')
       = count_list (group_values (dropna tie_frame) (Text ''x'')) (Text ''int'')
   \<and> dict_get (common_types (dropna tie_frame)) (Text ''x'') = Text ''int''
   \<and> Highlight (dropna tie_frame) (0, [Text ''x'', Text ''str''])
   \<and> \<not> Highlight (dropna tie_frame) (1, [Text ''x'', Text ''int''])"
  by (simp add: tie_frame_def frame_defs analysis_defs)

text \<open>
  C4, amended. When several values of a group are tied as the most frequent, the dominant
  value is the least of them in the sorted order of the modes (for texts, the order of
  strings), and of the rows of the group exactly those with another value are flagged.
\<close>

theorem tie_break_least_mode:
  assumes "r \<in> set (rows (dropna df))"
    and "is_mode (group_values (dropna df) (name_of (dropna df) r)) m"
  shows "is_mode (group_values (dropna df) (name_of (dropna df) r))
           (dict_get (common_types (dropna df)) (name_of (dropna df) r))
       \<and> cell_key (dict_get (common_types (dropna df)) (name_of (dropna df) r)) \<le> cell_key m
       \<and> (\<forall>a b. dict_get (common_types (dropna df)) (name_of (dropna df) r) = Text a \<and> m = Text b
             \<longrightarrow> a \<le> b)
       \<and> (\<forall>r' \<in> set (rows (dropna df)). name_of (dropna df) r' = name_of (dropna df) r \<longrightarrow>
             (Highlight (dropna df) r' \<longleftrightarrow>
              dtype_of (dropna df) r' \<noteq> dict_get (common_types (dropna df)) (name_of (dropna df) r)))"
proof -
  let ?d = "dropna df"
  let ?n = "name_of ?d r"
  let ?g = "group_values ?d ?n"
  have an: "analysed ?d" by (rule analysed_dropna)
  have dg: "dict_get (common_types ?d) ?n = agg_mode ?g"
    using common_types_row[OF an assms(1)] by (simp add: dict_get_def)
  have im: "is_mode ?g (agg_mode ?g)" using an assms(1) by (rule dominant_is_mode)
  have le: "cell_key (agg_mode ?g) \<le> cell_key m"
    using group_values_noblank[OF an] assms(2) by (rule agg_mode_least)
  have texts: "a \<le> b" if "agg_mode ?g = Text a" "m = Text b" for a b
    using le that by (auto simp: less_eq_prod_def)
  have fl: "Highlight ?d r' \<longleftrightarrow> dtype_of ?d r' \<noteq> agg_mode ?g"
    if "r' \<in> set (rows ?d)" "name_of ?d r' = ?n" for r'
    using Highlight_row[OF an that(1)] that(2) by simp
  show ?thesis unfolding dg using im le texts fl by blast
qed

theorem tie_break_least_mode_witness:
  "(0, [Text ''x'', Text ''str'']) \<in> set (rows (dropna tie_frame))
   \<and> is_mode (group_values (dropna tie_frame) (Text ''x'')) (Text ''str'')
   \<and> is_mode (group_values (dropna tie_frame) (Text ''x'')) (Text ''int'')
   \<and> dict_get (common_types (dropna tie_frame)) (Text ''x'')  = Text ''int''
   \<and> ''int'' \<le> ''str''"
proof -
  have r: "(0, [Text ''x'', Text ''str'']) \<in> set (rows (dropna tie_frame))"
    by (simp add: tie_frame_def frame_defs)
  have n: "name_of (dropna tie_frame) (0, [Text ''x'', Text ''str'']) = Text ''x''"
    by (simp add: tie_frame_def frame_defs)
  have m: "is_mode (group_values (dropna tie_frame) (name_of (dropna tie_frame) (0, [Text ''x'', Text ''str''])))
     (Text ''str'')"
    by (simp add: is_mode_def tie_frame_def frame_defs group_values_def)
  have d: "dict_get (common_types (dropna tie_frame)) (Text ''x'')  = Text ''int''"
    by (simp add: tie_frame_def frame_defs analysis_defs)
  from tie_break_least_mode [OF r m] r m show ?thesis unfolding n d by simp
qed

section \<open>Properties of the handler\<close>

lemma process_read_error:
  "accepted lib u \<Longrightarrow> read_excel u = Inl e \<Longrightarrow> process lib u = Inl e"
  by (cases "splitext (filename u)") (simp add: process_def accepted_def Let_def)


lemma process_apply_error:
  "accepted lib u \<Longrightarrow> read_excel u = Inr df0 \<Longrightarrow> {''Name'', ''Data Type''} \<subseteq> set (columns df0) \<Longrightarrow>
   rows (dropna df0) = [] \<Longrightarrow> apply_empty lib = Some e \<Longrightarrow> process lib u = Inl e"
  by (cases "splitext (filename u)") (simp add: process_def accepted_def Let_def)

lemma process_compose:
  "accepted lib u \<Longrightarrow> read_excel u = Inr df0 \<Longrightarrow> {''Name'', ''Data Type''} \<subseteq> set (columns df0) \<Longrightarrow>
   rows (dropna df0) \<noteq> [] \<or> apply_empty lib = None \<Longrightarrow>
   process lib u =
     (case compose lib u (fst (splitext (filename u))) (lower lib (snd (splitext (filename u))))
             (annotate (dropna df0)) (summary (dropna df0)) of
        Inl e \<Rightarrow> Inl e
      | Inr (output_filename, wb, lg) \<Rightarrow>
          Inr \<lparr>reply = \<lparr>status_code = 200, success = True, message = done_message,
                        download_filename = Some output_filename\<rparr>,
               saved = Some (''temp_output/'' @ output_filename, wb), logs = lg\<rparr>)"
  by (cases "splitext (filename u)") (auto simp add: process_def accepted_def Let_def)

lemmas upload_defs = accepted_def plain_library_def two_sheets_upload_def one_sheet_upload_def
  splitext_def rfind_def ascii_lower_def supported_extensions_def

text \<open>
  C5. When reading the first sheet raises and the file has exactly one sheet, that sheet
  is read by name and its result (or its failure, as an unreadable-file error) is the
  result of loading. When the file has several sheets, the request is answered with
  status 400 and a message that ends with the text about the several worksheets; no file
  is written, and no sheet is read by name: the outcome does not depend on what reading
  a named sheet would give.
\<close>

theorem fallback_single_sheet_or_ambiguity:
  assumes "accepted lib u" and "read_first u = Inl e"
  shows "(\<forall>s. excel_file u = Inr [s] \<longrightarrow>
            read_excel u = (case read_sheet u s of
                              Inr df \<Rightarrow> Inr df
                            | Inl e_inner \<Rightarrow> Inl (ValueError (unreadable_prefix @ str_exn e_inner))))
       \<and> (\<forall>names. excel_file u = Inr names \<and> 1 < length names \<longrightarrow>
            upload_file lib u = bad_request (unreadable_prefix @ multiple_sheets_message)
            \<and> suffix multiple_sheets_message (message (reply (upload_file lib u)))
            \<and> status_code (reply (upload_file lib u)) = 400
            \<and> saved (upload_file lib u) = None
            \<and> (\<forall>f. upload_file lib (u\<lparr>read_sheet := f\<rparr>) = upload_file lib u))"
proof (intro conjI allI impI)
  fix s assume "excel_file u = Inr [s]"
  then show "read_excel u = (case read_sheet u s of
                              Inr df \<Rightarrow> Inr df
                            | Inl e_inner \<Rightarrow> Inl (ValueError (unreadable_prefix @ str_exn e_inner)))"
    using assms(2) by (simp add: read_excel_def second_attempt_def)
next
  fix names assume n: "excel_file u = Inr names \<and> 1 < length names"
  have re: "read_excel (u\<lparr>read_sheet := f\<rparr>) = Inl (ValueError (unreadable_prefix @ multiple_sheets_message))" for f
    using assms(2) n by (simp add: read_excel_def second_attempt_def)
  have re0: "read_excel u = Inl (ValueError (unreadable_prefix @ multiple_sheets_message))"
    using assms(2) n by (simp add: read_excel_def second_attempt_def)
  have pr: "process lib (u\<lparr>read_sheet := f\<rparr>) = Inl (ValueError (unreadable_prefix @ multiple_sheets_message))" for f
    by (rule process_read_error) (use assms(1) re[of f] in \<open>simp_all add: accepted_def\<close>)
  have pr0: "process lib u = Inl (ValueError (unreadable_prefix @ multiple_sheets_message))"
    using assms(1) re0 by (rule process_read_error)
  show up: "upload_file lib u = bad_request (unreadable_prefix @ multiple_sheets_message)"
    by (simp add: upload_file_def pr0)
  show "suffix multiple_sheets_message (message (reply (upload_file lib u)))"
    by (simp add: up bad_request_def suffix_def)
  show "status_code (reply (upload_file lib u)) = 400" by (simp add: up bad_request_def)
  show "saved (upload_file lib u) = None" by (simp add: up bad_request_def)
  fix f show "upload_file lib (u\<lparr>read_sheet := f\<rparr>) = upload_file lib u"
    by (simp add: upload_file_def pr pr0)
qed

theorem fallback_single_sheet_or_ambiguity_witness:
  "accepted plain_library two_sheets_upload
   \<and> read_first two_sheets_upload = Inl (OtherError ''engine'')
   \<and> excel_file two_sheets_upload = Inr [''A'', ''B'']
   \<and> upload_file plain_library two_sheets_upload = bad_request (unreadable_prefix @ multiple_sheets_message)
   \<and> accepted plain_library one_sheet_upload
   \<and> read_first one_sheet_upload = Inl (OtherError ''engine'')
   \<and> excel_file one_sheet_upload = Inr [''A'']
   \<and> read_excel one_sheet_upload = Inr scenario_A"
proof -
  have a2: "accepted plain_library two_sheets_upload" by (simp add: upload_defs)
  have r2: "read_first two_sheets_upload = Inl (OtherError ''engine'')" by (simp add: upload_defs)
  have a1: "accepted plain_library one_sheet_upload" by (simp add: upload_defs)
  have r1: "read_first one_sheet_upload = Inl (OtherError ''engine'')" by (simp add: upload_defs)
  have e2: "excel_file two_sheets_upload = Inr [''A'', ''B'']" by (simp add: upload_defs)
  have e1: "excel_file one_sheet_upload = Inr [''A'']" by (simp add: upload_defs)
  have s1: "read_sheet one_sheet_upload ''A'' = Inr scenario_A" by (simp add: upload_defs)
  from fallback_single_sheet_or_ambiguity [OF a2 r2] e2
  have "upload_file plain_library two_sheets_upload = bad_request (unreadable_prefix @ multiple_sheets_message)"
    by simp
  moreover from fallback_single_sheet_or_ambiguity [OF a1 r1] e1 s1 have "read_excel one_sheet_upload = Inr scenario_A"
    by simp
  ultimately show ?thesis using a1 a2 r1 r2 e1 e2 by simp
qed




lemma splitext_append: "fst (splitext p) @ snd (splitext p) = p"
  by (simp add: splitext_def Let_def)

lemma saved_bad_request [simp]: "saved (bad_request m) = None"
  by (simp add: bad_request_def)

lemma saved_internal_error [simp]: "saved (internal_error m) = None"
  by (simp add: internal_error_def)

lemma upload_file_saved:
  assumes "saved (upload_file lib u) = Some (path, wb)"
  shows "\<exists>out. process lib u = Inr out \<and> upload_file lib u = out"
  using assms by (auto simp: upload_file_def split: sum.splits exn.splits)

lemma process_saved:
  assumes "process lib u = Inr out" and "saved out = Some (path, wb)"
  shows "\<exists>df0 output_filename lg.
           accepted lib u \<and> read_excel u = Inr df0 \<and> {''Name'', ''Data Type''} \<subseteq> set (columns df0)
           \<and> (rows (dropna df0) \<noteq> [] \<or> apply_empty lib = None)
           \<and> compose lib u (fst (splitext (filename u))) (lower lib (snd (splitext (filename u))))
                 (annotate (dropna df0)) (summary (dropna df0)) = Inr (output_filename, wb, lg)
           \<and> path = ''temp_output/'' @ output_filename
           \<and> out = \<lparr>reply = \<lparr>status_code = 200, success = True, message = done_message,
                                download_filename = Some output_filename\<rparr>,
                      saved = Some (path, wb), logs = lg\<rparr>"
proof (cases "splitext (filename u)")
  case (Pair b e)
  show ?thesis using assms unfolding process_def Pair accepted_def
    by (auto simp: Let_def split: if_splits option.splits sum.splits prod.splits)
qed

lemma compose_Inr:
  assumes "compose lib u b e df sm = Inr (out, wb, lg)"
  shows "\<exists>ws wb0 lg1.
           open_primary u b e df = Inr (ws, wb0, out, lg1) \<and> save_error u = None
           \<and> wb = (fst (remove_summary wb0))
                    \<lparr>sheets := sheets (fst (remove_summary wb0))
                                 @ [fst (summary_sheet lib ws (fst (remove_summary wb0)) sm)]\<rparr>
           \<and> lg = lg1 @ snd (remove_summary wb0) @ [(INFO, SummaryWritten)]
                    @ snd (summary_sheet lib ws (fst (remove_summary wb0)) sm)
                    @ [(INFO, Saved (''temp_output/'' @ out))]"
  using assms unfolding compose_def
  by (auto simp: Let_def split: sum.splits prod.splits option.splits)

lemma open_primary_xls:
  assumes "open_primary u b ''.xls'' df = Inr (ws, wb0, out, lg)"
  shows "out = ''result_'' @ b @ ''.xlsx'' \<and> wb0 = \<lparr>sheets = [ws], vba_archive = None\<rparr>
         \<and> ws = rebuild_sheet (fst (first_sheet_title u)) df"
  using assms unfolding open_primary_def by (auto simp: Let_def split: prod.splits)

lemma open_primary_other:
  assumes "e \<noteq> ''.xls''" and "open_primary u b e df = Inr (ws, wb0, out, lg)"
  shows "e \<in> {''.xlsx'', ''.xlsm''} \<and> out = ''result_'' @ filename u \<and> open_error u = None
         \<and> (\<exists>s rest. sheets (document u) = s # rest \<and> ws = highlight_rows df s
               \<and> sheets wb0 = ws # rest
               \<and> vba_archive wb0 = (if e = ''.xlsm'' then vba_archive (document u) else None))"
  using assms unfolding open_primary_def load_workbook_def
  by (auto simp: Let_def split: if_splits sum.splits list.splits option.splits)

lemma vba_remove_summary [simp]: "vba_archive (fst (remove_summary wb)) = vba_archive wb"
  by (simp add: remove_summary_def)

lemma length_remove_titled: "length (remove_titled t ss) \<le> length ss"
  by (induction ss) auto

lemma length_remove_summary: "length (sheets (fst (remove_summary wb))) \<le> length (sheets wb)"
  by (simp add: remove_summary_def length_remove_titled)

lemma xls_independent:
  assumes "lower lib (snd (splitext (filename u))) = ''.xls''"
  shows "process lib (u\<lparr>open_error := e, document := d\<rparr>) = process lib u"
proof (cases "splitext (filename u)")
  case (Pair b x)
  with assms have x: "lower lib x = ''.xls''" by simp
  have sa: "second_attempt (u\<lparr>open_error := e, document := d\<rparr>) = second_attempt u"
    by (simp add: second_attempt_def split: sum.splits)
  have r: "read_excel (u\<lparr>open_error := e, document := d\<rparr>) = read_excel u"
    by (simp add: read_excel_def sa split: sum.splits)
  have c: "compose lib (u\<lparr>open_error := e, document := d\<rparr>) b ''.xls'' df sm = compose lib u b ''.xls'' df sm"
    for df sm
    by (simp add: compose_def open_primary_def first_sheet_title_def Let_def
          split: sum.splits prod.splits option.splits list.splits)
  show ?thesis unfolding process_def
    by (simp add: Pair x r c Let_def split: sum.splits prod.splits option.splits)
qed

text \<open>
  C7. When a request succeeds: for an extension that lowers to \<open>.xls\<close> the file written
  and the name returned are \<open>result_\<close>, the base name and \<open>.xlsx\<close>; the workbook is
  the one built from the frame, which carries no VBA archive, has at most the rebuilt
  sheet and the summary sheet, and does not depend on what openpyxl would load from the
  file. For the other two extensions the name is \<open>result_\<close> and the unchanged file
  name, and for \<open>.xlsm\<close> the workbook written carries the VBA archive of the input.
\<close>

theorem output_name_and_format:
  assumes "saved (upload_file lib u) = Some (path, wb)"
  shows "fst (splitext (filename u)) @ snd (splitext (filename u)) = filename u
       \<and> (lower lib (snd (splitext (filename u))) = ''.xls'' \<longrightarrow>
            download_filename (reply (upload_file lib u))
              = Some (''result_'' @ fst (splitext (filename u)) @ ''.xlsx'')
            \<and> path = ''temp_output/result_'' @ fst (splitext (filename u)) @ ''.xlsx''
            \<and> vba_archive wb = None
            \<and> length (sheets wb) \<le> 2
            \<and> (\<forall>e d. upload_file lib (u\<lparr>open_error := e, document := d\<rparr>) = upload_file lib u))
       \<and> (lower lib (snd (splitext (filename u))) \<noteq> ''.xls'' \<longrightarrow>
            lower lib (snd (splitext (filename u))) \<in> {''.xlsx'', ''.xlsm''}
            \<and> download_filename (reply (upload_file lib u)) = Some (''result_'' @ filename u)
            \<and> path = ''temp_output/result_'' @ filename u)
       \<and> (lower lib (snd (splitext (filename u))) = ''.xlsm'' \<longrightarrow>
            vba_archive wb = vba_archive (document u))"
proof -
  let ?b = "fst (splitext (filename u))"
  let ?e = "lower lib (snd (splitext (filename u)))"
  from upload_file_saved [OF assms] obtain out where
    p: "process lib u = Inr out" and o: "upload_file lib u = out" by blast
  from process_saved [OF p] assms o obtain df0 output_filename lg where
    c: "compose lib u ?b ?e (annotate (dropna df0)) (summary (dropna df0)) = Inr (output_filename, wb, lg)"
    and path: "path = ''temp_output/'' @ output_filename"
    and out: "out = \<lparr>reply = \<lparr>status_code = 200, success = True, message = done_message,
                                download_filename = Some output_filename\<rparr>,
                      saved = Some (path, wb), logs = lg\<rparr>"
    by auto
  from compose_Inr [OF c] obtain ws wb0 lg1 where
    op: "open_primary u ?b ?e (annotate (dropna df0)) = Inr (ws, wb0, output_filename, lg1)"
    and wb: "wb = (fst (remove_summary wb0))
                    \<lparr>sheets := sheets (fst (remove_summary wb0))
                                 @ [fst (summary_sheet lib ws (fst (remove_summary wb0)) (summary (dropna df0)))]\<rparr>"
    by blast
  have dl: "download_filename (reply (upload_file lib u)) = Some output_filename"
    by (simp add: o out)
  have xls: "output_filename = ''result_'' @ ?b @ ''.xlsx'' \<and> vba_archive wb = None \<and> length (sheets wb) \<le> 2"
    if "?e = ''.xls''"
  proof -
    from op that have "open_primary u ?b ''.xls'' (annotate (dropna df0)) = Inr (ws, wb0, output_filename, lg1)"
      by simp
    from open_primary_xls [OF this]
    have "output_filename = ''result_'' @ ?b @ ''.xlsx''" and w0: "wb0 = \<lparr>sheets = [ws], vba_archive = None\<rparr>"
      by simp_all
    moreover have "vba_archive wb = None" by (simp add: wb w0)
    moreover have "length (sheets wb) \<le> 2"
      using length_remove_summary [of wb0] by (simp add: wb w0)
    ultimately show ?thesis by simp
  qed
  have ind: "upload_file lib (u\<lparr>open_error := e, document := d\<rparr>) = upload_file lib u"
    if "?e = ''.xls''" for e d
    using xls_independent [OF that] by (simp add: upload_file_def)
  have other: "?e \<in> {''.xlsx'', ''.xlsm''} \<and> output_filename = ''result_'' @ filename u
      \<and> (?e = ''.xlsm'' \<longrightarrow> vba_archive wb = vba_archive (document u))"
    if "?e \<noteq> ''.xls''"
  proof -
    from open_primary_other [OF that op] obtain s rest where
      e: "?e \<in> {''.xlsx'', ''.xlsm''}" and n: "output_filename = ''result_'' @ filename u"
      and w0: "vba_archive wb0 = (if ?e = ''.xlsm'' then vba_archive (document u) else None)"
      by blast
    have "?e = ''.xlsm'' \<longrightarrow> vba_archive wb = vba_archive (document u)" by (simp add: wb w0)
    with e n show ?thesis by simp
  qed
  have m: "?e = ''.xlsm'' \<Longrightarrow> ?e \<noteq> ''.xls''" by simp
  show ?thesis
    using splitext_append [of "filename u"] dl path xls ind other m by (intro conjI impI allI) auto
qed

lemmas handler_defs = upload_file_def process_def compose_def open_primary_def summary_sheet_def
  remove_summary_def create_title_def new_sheet_def summary_rows_def name_col_idx_def add_links_def
  found_row_def rebuild_sheet_def first_sheet_title_def load_workbook_def highlight_rows_def
  put_row_def row_values_def cell_value_def max_row_def annotate_def setitem_def read_excel_def
  second_attempt_def missing_columns_def bad_request_def internal_error_def

lemma xls_saved:
  "\<exists>wb. saved (upload_file plain_library xls_upload) = Some (''temp_output/result_book.xlsx'', wb)"
  by (simp add: handler_defs xls_upload_def upload_defs scenario_A_def frame_defs analysis_defs Let_def)

lemma xlsm_saved:
  "\<exists>wb. saved (upload_file plain_library xlsm_upload) = Some (''temp_output/result_macro.xlsm'', wb)"
  by (simp add: handler_defs xlsm_upload_def processed_workbook_def data_sheet_def upload_defs
      scenario_A_def frame_defs analysis_defs Let_def)

theorem output_name_and_format_witness:
  "download_filename (reply (upload_file plain_library xls_upload)) = Some ''result_book.xlsx''
   \<and> (\<exists>wb. saved (upload_file plain_library xls_upload) = Some (''temp_output/result_book.xlsx'', wb)
          \<and> vba_archive wb = None)
   \<and> download_filename (reply (upload_file plain_library xlsm_upload)) = Some ''result_macro.xlsm''
   \<and> (\<exists>wb. saved (upload_file plain_library xlsm_upload) = Some (''temp_output/result_macro.xlsm'', wb)
          \<and> vba_archive wb = Some ''vbaProject.bin'')"
proof -
  from xls_saved obtain w1 where
    s1: "saved (upload_file plain_library xls_upload) = Some (''temp_output/result_book.xlsx'', w1)" ..
  from xlsm_saved obtain w2 where
    s2: "saved (upload_file plain_library xlsm_upload) = Some (''temp_output/result_macro.xlsm'', w2)" ..
  have e1: "lower plain_library (snd (splitext (filename xls_upload))) = ''.xls''"
    and b1: "fst (splitext (filename xls_upload)) = ''book''"
    by (simp_all add: xls_upload_def upload_defs)
  have e2: "lower plain_library (snd (splitext (filename xlsm_upload))) = ''.xlsm''"
    and f2: "filename xlsm_upload = ''macro.xlsm''"
    and d2: "vba_archive (document xlsm_upload) = Some ''vbaProject.bin''"
    by (simp_all add: xlsm_upload_def processed_workbook_def upload_defs)
  from output_name_and_format [OF s1] e1 b1
  have "download_filename (reply (upload_file plain_library xls_upload)) = Some ''result_book.xlsx''"
    and "vba_archive w1 = None" by simp_all
  moreover from output_name_and_format [OF s2] e2 f2 d2
  have "download_filename (reply (upload_file plain_library xlsm_upload)) = Some ''result_macro.xlsm''"
    and "vba_archive w2 = Some ''vbaProject.bin''" by simp_all
  ultimately show ?thesis using s1 s2 by simp
qed

lemma title_highlight_fold:
  "title (foldl (\<lambda>w r. if P w r then w\<lparr>fills := F w r\<rparr> else w) ws rs) = title ws"
  by (induction rs arbitrary: ws) auto

lemma grid_highlight_fold:
  "grid (foldl (\<lambda>w r. if P w r then w\<lparr>fills := F w r\<rparr> else w) ws rs) = grid ws"
  by (induction rs arbitrary: ws) auto

lemma title_highlight_rows [simp]: "title (highlight_rows df ws) = title ws"
  unfolding highlight_rows_def by (rule title_highlight_fold)

lemma grid_highlight_rows [simp]: "grid (highlight_rows df ws) = grid ws"
  unfolding highlight_rows_def by (rule grid_highlight_fold)

lemma name_col_idx_highlight_rows [simp]: "name_col_idx (highlight_rows df ws) = name_col_idx ws"
  by (simp add: name_col_idx_def row_values_def)

lemma title_add_links_fold:
  "title (foldl (\<lambda>s i. let v = cell_value s i 1
                   in if v = Blank then s
                      else (case found_row lib ws col v of
                              None \<Rightarrow> s
                            | Some j \<Rightarrow>
                                s\<lparr>grid := (grid s)[i - 1 :=
                                      (grid s ! (i - 1))[0 := Text (hyperlink lib (title ws) col j v)]],
                                  blue := blue s @ [(i, 1)]\<rparr>)) s0 ns) = title s0"
  by (induction ns arbitrary: s0) (auto simp: Let_def split: option.splits)

lemma title_add_links [simp]: "title (add_links lib ws col sws) = title sws"
  unfolding add_links_def by (rule title_add_links_fold)

lemma title_summary_sheet [simp]:
  "title (fst (summary_sheet lib ws wb1 sm)) = create_title lib wb1 summary_title"
  by (simp add: summary_sheet_def new_sheet_def Let_def split: option.splits)

lemma set_remove_titled: "set (remove_titled t ss) \<subseteq> set ss"
  by (induction ss) auto

lemma distinct_remove_titled:
  "distinct (map title ss) \<Longrightarrow> distinct (map title (remove_titled t ss))"
proof (induction ss)
  case Nil
  then show ?case by simp
next
  case (Cons s ss)
  then show ?case using set_remove_titled [of t ss] by auto
qed

lemma remove_titled_absent:
  "distinct (map title ss) \<Longrightarrow> x \<in> set (remove_titled t ss) \<Longrightarrow> title x \<noteq> t"
proof (induction ss)
  case Nil
  then show ?case by simp
next
  case (Cons s ss)
  show ?case
  proof (cases "title s = t")
    case True
    with Cons.prems have "x \<in> set ss" and "title s \<notin> title ` set ss" by simp_all
    then have "title x \<noteq> title s" by (metis imageI)
    with True show ?thesis by simp
  next
    case False
    with Cons.prems have "x = s \<or> x \<in> set (remove_titled t ss)" and "distinct (map title ss)"
      by simp_all
    with False Cons.IH show ?thesis by blast
  qed
qed

lemma create_title_fresh: "t \<notin> set (map title (sheets wb)) \<Longrightarrow> create_title lib wb t = t"
  by (simp add: create_title_def)

lemma filter_title_empty:
  "t \<notin> set (map title ss) \<Longrightarrow> filter (\<lambda>s. title s = t) ss = []"
  by (induction ss) auto

lemma composed_titles_general:
  assumes "distinct (map title ss)" and "t \<notin> set (map title ss)" and "title s = t"
  shows "length (filter (\<lambda>s. title s = t) (ss @ [s])) = 1 \<and> distinct (map title (ss @ [s]))"
  using assms by (simp add: filter_title_empty)

lemma remove_titled_titles:
  assumes "distinct (map title ss)"
  shows "distinct (map title (if t \<in> set (map title ss) then remove_titled t ss else ss))
         \<and> t \<notin> set (map title (if t \<in> set (map title ss) then remove_titled t ss else ss))"
proof (cases "t \<in> set (map title ss)")
  case True
  have "t \<notin> set (map title (remove_titled t ss))"
    using remove_titled_absent [OF assms, of _ t] by (metis (no_types) imageE set_map)
  with True distinct_remove_titled [OF assms, of t] show ?thesis by simp
next
  case False
  with assms show ?thesis by simp
qed

lemma sheets_remove_summary:
  "sheets (fst (remove_summary wb))
   = (if summary_title \<in> set (map title (sheets wb)) then remove_titled summary_title (sheets wb)
      else sheets wb)"
  by (simp add: remove_summary_def)

lemma composed_titles:
  assumes "distinct (map title (sheets wb0))"
  shows "length (filter (\<lambda>s. title s = summary_title)
            (sheets (fst (remove_summary wb0)) @ [fst (summary_sheet lib ws (fst (remove_summary wb0)) sm)])) = 1
       \<and> distinct (map title
            (sheets (fst (remove_summary wb0)) @ [fst (summary_sheet lib ws (fst (remove_summary wb0)) sm)]))
       \<and> title (fst (summary_sheet lib ws (fst (remove_summary wb0)) sm)) = summary_title
       \<and> summary_title \<notin> set (map title (sheets (fst (remove_summary wb0))))"
proof -
  let ?wb1 = "fst (remove_summary wb0)"
  let ?sws = "fst (summary_sheet lib ws ?wb1 sm)"
  from remove_titled_titles [OF assms, of summary_title]
  have d: "distinct (map title (sheets ?wb1))"
    and n: "summary_title \<notin> set (map title (sheets ?wb1))"
    unfolding sheets_remove_summary by blast+
  have t: "title ?sws = summary_title"
    unfolding title_summary_sheet using n by (rule create_title_fresh)
  from composed_titles_general [OF d n t] t n show ?thesis by blast
qed

lemma saved_workbook:
  assumes "saved (upload_file lib u) = Some (path, wb)"
  shows "\<exists>df0 ws wb0 out lg1.
           open_primary u (fst (splitext (filename u))) (lower lib (snd (splitext (filename u))))
              (annotate (dropna df0)) = Inr (ws, wb0, out, lg1)
           \<and> sheets wb = sheets (fst (remove_summary wb0))
                @ [fst (summary_sheet lib ws (fst (remove_summary wb0)) (summary (dropna df0)))]"
proof -
  from upload_file_saved [OF assms] obtain out where
    p: "process lib u = Inr out" and o: "upload_file lib u = out" by blast
  from process_saved [OF p] assms o obtain df0 output_filename lg where
    c: "compose lib u (fst (splitext (filename u))) (lower lib (snd (splitext (filename u))))
          (annotate (dropna df0)) (summary (dropna df0)) = Inr (output_filename, wb, lg)"
    by auto
  from compose_Inr [OF c] show ?thesis by force
qed

lemma open_primary_titles:
  assumes "open_primary u b e df = Inr (ws, wb0, out, lg)"
    and "distinct (map title (sheets (document u)))"
  shows "distinct (map title (sheets wb0))"
proof (cases "e = ''.xls''")
  case True
  with assms(1) open_primary_xls [of u b df ws wb0 out lg] show ?thesis by simp
next
  case False
  from open_primary_other [OF False assms(1)] obtain s rest where
    "sheets (document u) = s # rest" "ws = highlight_rows df s" "sheets wb0 = ws # rest" by blast
  with assms(2) show ?thesis by simp
qed

lemma one_summary_sheet:
  assumes "saved (upload_file lib u) = Some (path, wb)"
    and "distinct (map title (sheets (document u)))"
  shows "length (filter (\<lambda>s. title s = summary_title) (sheets wb)) = 1
       \<and> distinct (map title (sheets wb))
       \<and> sheets wb \<noteq> [] \<and> title (last (sheets wb)) = summary_title
       \<and> summary_title \<notin> set (map title (butlast (sheets wb)))"
proof -
  from saved_workbook [OF assms(1)] obtain df0 ws wb0 out lg1 where
    op: "open_primary u (fst (splitext (filename u))) (lower lib (snd (splitext (filename u))))
              (annotate (dropna df0)) = Inr (ws, wb0, out, lg1)"
    and sh: "sheets wb = sheets (fst (remove_summary wb0))
                @ [fst (summary_sheet lib ws (fst (remove_summary wb0)) (summary (dropna df0)))]"
    by blast
  from open_primary_titles [OF op assms(2)] have "distinct (map title (sheets wb0))" .
  note ct = composed_titles [OF this, of lib ws "summary (dropna df0)"]
  have c1: "length (filter (\<lambda>s. title s = summary_title) (sheets wb)) = 1"
    unfolding sh using ct by blast
  have c2: "distinct (map title (sheets wb))"
    unfolding sh using ct by blast
  have c3: "sheets wb \<noteq> []"
    unfolding sh by simp
  have c4: "title (last (sheets wb)) = summary_title"
    unfolding sh last_snoc using ct by blast
  have c5: "summary_title \<notin> set (map title (butlast (sheets wb)))"
    unfolding sh butlast_snoc using ct by blast
  from c1 c2 c3 c4 c5 show ?thesis by blast
qed

text \<open>
  C8. When a request succeeds on a document whose sheet titles are distinct, as openpyxl
  keeps them, the workbook written has exactly one sheet with the reserved title: it is
  the last sheet, the new summary sheet, and no sheet before it has that title. Hence
  processing the written workbook again gives exactly one summary sheet again.
\<close>

theorem exactly_one_summary_sheet:
  assumes "saved (upload_file lib u) = Some (path, wb)"
    and "distinct (map title (sheets (document u)))"
  shows "length (filter (\<lambda>s. title s = summary_title) (sheets wb)) = 1
       \<and> sheets wb \<noteq> [] \<and> title (last (sheets wb)) = summary_title
       \<and> summary_title \<notin> set (map title (butlast (sheets wb)))
       \<and> (\<forall>u' path' wb'. document u' = wb \<and> saved (upload_file lib u') = Some (path', wb') \<longrightarrow>
             length (filter (\<lambda>s. title s = summary_title) (sheets wb')) = 1)"
proof -
  note first = one_summary_sheet [OF assms]
  have again: "length (filter (\<lambda>s. title s = summary_title) (sheets wb')) = 1"
    if "document u' = wb" "saved (upload_file lib u') = Some (path', wb')" for u' path' wb'
  proof -
    have "distinct (map title (sheets (document u')))" using first that(1) by simp
    from one_summary_sheet [OF that(2) this] show ?thesis by simp
  qed
  show ?thesis using first again by blast
qed

lemma xlsm_first_run:
  "saved (upload_file plain_library xlsm_upload) = Some (''temp_output/result_macro.xlsm'', reprocessed_workbook)"
  by (simp add: handler_defs xlsm_upload_def processed_workbook_def data_sheet_def upload_defs
      reprocessed_workbook_def scenario_A_def frame_defs analysis_defs Let_def summary_title_def)

lemma xlsm_second_run:
  "\<exists>wb. saved (upload_file plain_library rerun_upload) = Some (''temp_output/result_macro.xlsm'', wb)"
  by (simp add: handler_defs rerun_upload_def xlsm_upload_def reprocessed_workbook_def data_sheet_def
      upload_defs scenario_A_def frame_defs analysis_defs Let_def summary_title_def)

theorem exactly_one_summary_sheet_witness:
  "distinct (map title (sheets (document xlsm_upload)))
   \<and> summary_title \<in> set (map title (sheets (document xlsm_upload)))
   \<and> saved (upload_file plain_library xlsm_upload)
       = Some (''temp_output/result_macro.xlsm'', reprocessed_workbook)
   \<and> length (filter (\<lambda>s. title s = summary_title) (sheets reprocessed_workbook)) = 1
   \<and> document rerun_upload = reprocessed_workbook
   \<and> (\<exists>wb. saved (upload_file plain_library rerun_upload) = Some (''temp_output/result_macro.xlsm'', wb)
          \<and> length (filter (\<lambda>s. title s = summary_title) (sheets wb)) = 1)"
proof -
  have d: "distinct (map title (sheets (document xlsm_upload)))"
    by (simp add: xlsm_upload_def processed_workbook_def data_sheet_def summary_title_def)
  have m: "summary_title \<in> set (map title (sheets (document xlsm_upload)))"
    by (simp add: xlsm_upload_def processed_workbook_def)
  have doc: "document rerun_upload = reprocessed_workbook" by (simp add: rerun_upload_def)
  from xlsm_second_run obtain w where
    s2: "saved (upload_file plain_library rerun_upload) = Some (''temp_output/result_macro.xlsm'', w)" ..
  note t = exactly_one_summary_sheet [OF xlsm_first_run d]
  from t have one: "length (filter (\<lambda>s. title s = summary_title) (sheets reprocessed_workbook)) = 1"
    by (elim conjE)
  from t have "\<forall>u' path' wb'. document u' = reprocessed_workbook
        \<and> saved (upload_file plain_library u') = Some (path', wb')
        \<longrightarrow> length (filter (\<lambda>s. title s = summary_title) (sheets wb')) = 1"
    by (elim conjE)
  with doc s2 have "length (filter (\<lambda>s. title s = summary_title) (sheets w)) = 1" by blast
  with s2 have "\<exists>wb. saved (upload_file plain_library rerun_upload) = Some (''temp_output/result_macro.xlsm'', wb)
          \<and> length (filter (\<lambda>s. title s = summary_title) (sheets wb)) = 1" by blast
  with d m xlsm_first_run one doc show ?thesis by (intro conjI)
qed

text \<open>
  In the branch of \<open>.xls\<close> row 1 of the rebuilt sheet holds the column labels of the
  frame, \<open>Name\<close> among them: the Name column is always found there.
\<close>

lemma put_row_first:
  assumes "g \<noteq> []" and "2 \<le> r"
  shows "put_row r vs g \<noteq> [] \<and> put_row r vs g ! 0 = g ! 0"
proof -
  let ?h = "g @ replicate (r - length g) []"
  have len: "0 < length (put_row r vs g)" using assms(1) by (simp add: put_row_def)
  have "put_row r vs g ! 0 = ?h ! 0"
    unfolding put_row_def using assms(2) by (intro nth_list_update_neq) simp
  also have "\<dots> = g ! 0" using assms(1) by (simp add: nth_append)
  finally show ?thesis using len by simp
qed

lemma fold_put_row_first:
  "g \<noteq> [] \<Longrightarrow>
   foldl (\<lambda>g r. put_row (fst r + 2) (snd r) g) g rs \<noteq> []
   \<and> foldl (\<lambda>g r. put_row (fst r + 2) (snd r) g) g rs ! 0 = g ! 0"
proof (induction rs arbitrary: g)
  case Nil
  then show ?case by simp
next
  case (Cons r rs)
  from put_row_first [OF Cons.prems, of "fst r + 2" "snd r"]
  have "put_row (fst r + 2) (snd r) g \<noteq> []" and "put_row (fst r + 2) (snd r) g ! 0 = g ! 0"
    by simp_all
  with Cons.IH [of "put_row (fst r + 2) (snd r) g"] show ?case by simp
qed

lemma row_values_rebuild_sheet: "row_values (rebuild_sheet t df) 1 = map Text (columns df)"
proof -
  let ?g0 = "put_row 1 (map Text (columns df)) []"
  have g0: "?g0 = [map Text (columns df)]" by (simp add: put_row_def)
  from fold_put_row_first [of ?g0 "rows df"] g0
  have "foldl (\<lambda>g r. put_row (fst r + 2) (snd r) g) ?g0 (rows df) \<noteq> []"
    and "foldl (\<lambda>g r. put_row (fst r + 2) (snd r) g) ?g0 (rows df) ! 0 = map Text (columns df)"
    by simp_all
  then show ?thesis
    by (cases "foldl (\<lambda>g r. put_row (fst r + 2) (snd r) g) ?g0 (rows df)")
       (simp_all add: rebuild_sheet_def row_values_def new_sheet_def Let_def)
qed

lemma columns_annotate: "set (columns df) \<subseteq> set (columns (annotate df))"
  by (auto simp: annotate_def setitem_def)

lemma rebuilt_header_has_name:
  assumes "''Name'' \<in> set (columns df)"
  shows "name_col_idx (rebuild_sheet t (annotate df)) \<noteq> None"
proof -
  have "''Name'' \<in> set (columns (annotate df))" using assms columns_annotate by blast
  then have "Text ''Name'' \<in> set (map Text (columns (annotate df)))" by simp
  then show ?thesis unfolding name_col_idx_def row_values_rebuild_sheet Let_def by simp
qed

lemma name_col_idx_None: "Text ''Name'' \<notin> set (row_values s 1) \<Longrightarrow> name_col_idx s = None"
  by (simp add: name_col_idx_def)

lemma remove_summary_log:
  "snd (remove_summary wb) = [] \<or> snd (remove_summary wb) = [(INFO, OldSummaryRemoved)]"
  by (simp add: remove_summary_def)

lemma compose_no_name:
  assumes "e \<noteq> ''.xls''" and "e \<in> set supported_extensions"
    and "open_error u = None" and "sheets (document u) = s # rest"
    and "Text ''Name'' \<notin> set (row_values s 1)" and "save_error u = None"
  shows "\<exists>wb lg2. compose lib u b e df sm
           = Inr (''result_'' @ filename u, wb,
                  [(INFO, if e = ''.xlsm'' then KeepVba else LoadXlsx)] @ lg2
                    @ [(INFO, SummaryWritten), (WARNING, NoNameColumn (title s)),
                       (INFO, Saved (''temp_output/'' @ ''result_'' @ filename u))])
         \<and> (lg2 = [] \<or> lg2 = [(INFO, OldSummaryRemoved)])
         \<and> sheets wb \<noteq> []
         \<and> grid (last (sheets wb)) = summary_rows sm
         \<and> blue (last (sheets wb)) = [] \<and> fills (last (sheets wb)) = []"
proof -
  let ?ws = "highlight_rows df s"
  let ?wb0 = "(document u)\<lparr>vba_archive := if e = ''.xlsm'' then vba_archive (document u) else None,
                 sheets := ?ws # rest\<rparr>"
  have ext: "e \<in> set [''.xlsx'', ''.xlsm'']" using assms(1,2) by (auto simp: supported_extensions_def)
  have op: "open_primary u b e df
      = Inr (?ws, ?wb0, ''result_'' @ filename u, [(INFO, if e = ''.xlsm'' then KeepVba else LoadXlsx)])"
    using assms(1,3,4) ext unfolding open_primary_def load_workbook_def by (simp add: Let_def)
  have nc: "name_col_idx s = None" using assms(5) by (rule name_col_idx_None)
  let ?wb1 = "fst (remove_summary ?wb0)"
  let ?sws = "(new_sheet (create_title lib ?wb1 summary_title))\<lparr>grid := summary_rows sm\<rparr>"
  have ss: "summary_sheet lib ?ws ?wb1 sm = (?sws, [(WARNING, NoNameColumn (title s))])"
    by (simp add: summary_sheet_def nc Let_def)
  have co: "compose lib u b e df sm
      = Inr (''result_'' @ filename u, ?wb1\<lparr>sheets := sheets ?wb1 @ [?sws]\<rparr>,
             [(INFO, if e = ''.xlsm'' then KeepVba else LoadXlsx)] @ snd (remove_summary ?wb0)
               @ [(INFO, SummaryWritten), (WARNING, NoNameColumn (title s)),
                  (INFO, Saved (''temp_output/'' @ ''result_'' @ filename u))])"
    unfolding compose_def op by (simp add: ss assms(6) split_beta Let_def)
  show ?thesis
    using remove_summary_log [of ?wb0] unfolding co by (auto simp: new_sheet_def)
qed

lemma warnings_of_logs:
  assumes "lg2 = [] \<or> lg2 = [(INFO, OldSummaryRemoved)]" and "k \<noteq> LinksAdded" and "z \<noteq> LinksAdded"
  shows "map snd (filter (\<lambda>p. fst p = WARNING)
           ([(INFO, k)] @ lg2 @ [(INFO, SummaryWritten), (WARNING, w), (INFO, z)])) = [w]
         \<and> (INFO, LinksAdded) \<notin> set ([(INFO, k)] @ lg2 @ [(INFO, SummaryWritten), (WARNING, w), (INFO, z)])"
  using assms by auto

text \<open>
  C9. For an \<open>.xlsx\<close> or \<open>.xlsm\<close> request whose table has the two required columns
  and at least one row left after the dropping, whose workbook opens and is saved, and
  whose primary sheet has no cell \<open>Name\<close> in row 1:
  the response is the success response with the output name; the workbook written ends
  with the summary sheet, which holds the header and the rows of the summary as plain
  values, no cell in the link font; the only warning logged is the one about the missing
  Name column, and the record of added links is not logged.
\<close>

theorem missing_name_header_skips_links:
  assumes "accepted lib u" and "read_excel u = Inr df0"
    and "{''Name'', ''Data Type''} \<subseteq> set (columns df0)"
    and "rows (dropna df0) \<noteq> []"
    and "lower lib (snd (splitext (filename u))) \<noteq> ''.xls''"
    and "open_error u = None" and "sheets (document u) = s # rest"
    and "Text ''Name'' \<notin> set (row_values s 1)"
    and "save_error u = None"
  shows "reply (upload_file lib u)
           = \<lparr>status_code = 200, success = True, message = done_message,
               download_filename = Some (''result_'' @ filename u)\<rparr>
       \<and> (\<exists>wb. saved (upload_file lib u) = Some (''temp_output/result_'' @ filename u, wb)
              \<and> sheets wb \<noteq> []
              \<and> grid (last (sheets wb)) = summary_rows (summary (dropna df0))
              \<and> blue (last (sheets wb)) = [])
       \<and> map snd (filter (\<lambda>p. fst p = WARNING) (logs (upload_file lib u))) = [NoNameColumn (title s)]
       \<and> (INFO, LinksAdded) \<notin> set (logs (upload_file lib u))"
proof -
  let ?b = "fst (splitext (filename u))"
  let ?e = "lower lib (snd (splitext (filename u)))"
  let ?k = "if ?e = ''.xlsm'' then KeepVba else LoadXlsx"
  have sup: "?e \<in> set supported_extensions" using assms(1) by (simp add: accepted_def)
  from compose_no_name [OF assms(5) sup assms(6,7,8,9), of lib ?b "annotate (dropna df0)" "summary (dropna df0)"]
  obtain wb lg2 where
    co: "compose lib u ?b ?e (annotate (dropna df0)) (summary (dropna df0))
           = Inr (''result_'' @ filename u, wb,
                  [(INFO, ?k)] @ lg2
                    @ [(INFO, SummaryWritten), (WARNING, NoNameColumn (title s)),
                       (INFO, Saved (''temp_output/'' @ ''result_'' @ filename u))])"
    and lg2: "lg2 = [] \<or> lg2 = [(INFO, OldSummaryRemoved)]"
    and wb: "sheets wb \<noteq> []" "grid (last (sheets wb)) = summary_rows (summary (dropna df0))"
      "blue (last (sheets wb)) = []"
    by blast
  have up: "upload_file lib u
      = \<lparr>reply = \<lparr>status_code = 200, success = True, message = done_message,
                    download_filename = Some (''result_'' @ filename u)\<rparr>,
         saved = Some (''temp_output/'' @ ''result_'' @ filename u, wb),
         logs = [(INFO, ?k)] @ lg2
                    @ [(INFO, SummaryWritten), (WARNING, NoNameColumn (title s)),
                       (INFO, Saved (''temp_output/'' @ ''result_'' @ filename u))]\<rparr>"
    unfolding upload_file_def process_compose [OF assms(1,2,3) disjI1 [OF assms(4)]] co by simp
  have k: "?k \<noteq> LinksAdded" by simp
  have z: "Saved (''temp_output/'' @ ''result_'' @ filename u) \<noteq> LinksAdded" by simp
  from warnings_of_logs [OF lg2 k z, of "NoNameColumn (title s)"]
  have w: "map snd (filter (\<lambda>p. fst p = WARNING) (logs (upload_file lib u))) = [NoNameColumn (title s)]"
    and l: "(INFO, LinksAdded) \<notin> set (logs (upload_file lib u))"
    unfolding up by simp_all
  have r: "reply (upload_file lib u)
           = \<lparr>status_code = 200, success = True, message = done_message,
               download_filename = Some (''result_'' @ filename u)\<rparr>"
    unfolding up by simp
  have sv: "saved (upload_file lib u) = Some (''temp_output/result_'' @ filename u, wb)"
    unfolding up by simp
  from r sv wb w l show ?thesis by blast
qed

theorem missing_name_header_skips_links_witness:
  "accepted plain_library formula_header_upload
   \<and> read_excel formula_header_upload = Inr tie_frame
   \<and> {''Name'', ''Data Type''} \<subseteq> set (columns tie_frame)
   \<and> rows (dropna tie_frame) \<noteq> []
   \<and> lower plain_library (snd (splitext (filename formula_header_upload))) \<noteq> ''.xls''
   \<and> open_error formula_header_upload = None
   \<and> sheets (document formula_header_upload) = [formula_header_sheet]
   \<and> Text ''Name'' \<notin> set (row_values formula_header_sheet 1)
   \<and> save_error formula_header_upload = None
   \<and> status_code (reply (upload_file plain_library formula_header_upload)) = 200
   \<and> map snd (filter (\<lambda>p. fst p = WARNING) (logs (upload_file plain_library formula_header_upload)))
       = [NoNameColumn ''Data'']
   \<and> (\<exists>wb. saved (upload_file plain_library formula_header_upload)
              = Some (''temp_output/result_report.xlsx'', wb)
          \<and> grid (last (sheets wb))
              = [[Text ''Name'', Text ''Data Type'', Text ''Count''],
                 [Text ''x'', Text ''int'', Num 1], [Text ''x'', Text ''str'', Num 1]])"
proof -
  have a: "accepted plain_library formula_header_upload" by (simp add: formula_header_upload_def upload_defs)
  have r: "read_excel formula_header_upload = Inr tie_frame"
    by (simp add: read_excel_def formula_header_upload_def)
  have c: "{''Name'', ''Data Type''} \<subseteq> set (columns tie_frame)" by (simp add: tie_frame_def)
  have n: "rows (dropna tie_frame) \<noteq> []" by (simp add: tie_frame_def frame_defs)
  have x: "lower plain_library (snd (splitext (filename formula_header_upload))) \<noteq> ''.xls''"
    by (simp add: formula_header_upload_def upload_defs)
  have o: "open_error formula_header_upload = None" by (simp add: formula_header_upload_def)
  have d: "sheets (document formula_header_upload) = formula_header_sheet # []" by (simp add: formula_header_upload_def)
  have h: "Text ''Name'' \<notin> set (row_values formula_header_sheet 1)"
    by (simp add: formula_header_sheet_def row_values_def)
  have s: "save_error formula_header_upload = None" by (simp add: formula_header_upload_def)
  have f: "filename formula_header_upload = ''report.xlsx''" by (simp add: formula_header_upload_def)
  have t: "title formula_header_sheet = ''Data''" by (simp add: formula_header_sheet_def)
  have sm: "summary_rows (summary (dropna tie_frame))
      = [[Text ''Name'', Text ''Data Type'', Text ''Count''],
         [Text ''x'', Text ''int'', Num 1], [Text ''x'', Text ''str'', Num 1]]"
    by (simp add: summary_rows_def tie_frame_def frame_defs analysis_defs)
  note th = missing_name_header_skips_links [OF a r c n x o d h s]
  from th have "reply (upload_file plain_library formula_header_upload)
           = \<lparr>status_code = 200, success = True, message = done_message,
               download_filename = Some (''result_'' @ filename formula_header_upload)\<rparr>"
    by (elim conjE)
  then have st: "status_code (reply (upload_file plain_library formula_header_upload)) = 200" by simp
  from th have "map snd (filter (\<lambda>p. fst p = WARNING) (logs (upload_file plain_library formula_header_upload)))
       = [NoNameColumn (title formula_header_sheet)]"
    by (elim conjE)
  then have w: "map snd (filter (\<lambda>p. fst p = WARNING) (logs (upload_file plain_library formula_header_upload)))
       = [NoNameColumn ''Data'']"
    unfolding t .
  from th have "\<exists>wb. saved (upload_file plain_library formula_header_upload)
                = Some (''temp_output/result_'' @ filename formula_header_upload, wb)
              \<and> sheets wb \<noteq> []
              \<and> grid (last (sheets wb)) = summary_rows (summary (dropna tie_frame))
              \<and> blue (last (sheets wb)) = []"
    by (elim conjE)
  then have e: "\<exists>wb. saved (upload_file plain_library formula_header_upload)
              = Some (''temp_output/result_report.xlsx'', wb)
          \<and> grid (last (sheets wb))
              = [[Text ''Name'', Text ''Data Type'', Text ''Count''],
                 [Text ''x'', Text ''int'', Num 1], [Text ''x'', Text ''str'', Num 1]]"
    unfolding f sm by auto
  from a r c n x o d h s st w e show ?thesis by (intro conjI)
qed

text \<open>
  A failing \<open>wb.save\<close> with the text \<open>disk full\<close>: the response has status 500 and its
  message ends with that text.
\<close>

theorem internal_error_message_counterexample:
  "status_code (reply (upload_file plain_library failing_save_upload)) = 500
   \<and> message (reply (upload_file plain_library failing_save_upload)) = internal_error_prefix @ ''disk full''
   \<and> save_error failing_save_upload = Some (OtherError ''disk full'')"
  by (simp add: handler_defs failing_save_upload_def xlsm_upload_def processed_workbook_def data_sheet_def
      upload_defs scenario_A_def frame_defs analysis_defs Let_def)

text \<open>
  C10, amended. Every exception other than a \<open>ValueError\<close> that the analysis or the
  composition raises is caught at the top level and answered with status 500,
  \<open>success\<close> false and no file name; the message is the fixed text of the internal
  error followed by the text of the exception, and no file is written.
\<close>

theorem unclassified_failure_reply:
  assumes "accepted lib u" and "read_excel u = Inr df0"
    and "{''Name'', ''Data Type''} \<subseteq> set (columns df0)"
    and "(rows (dropna df0) = [] \<and> apply_empty lib = Some (OtherError m))
         \<or> ((rows (dropna df0) \<noteq> [] \<or> apply_empty lib = None)
             \<and> compose lib u (fst (splitext (filename u))) (lower lib (snd (splitext (filename u))))
                  (annotate (dropna df0)) (summary (dropna df0)) = Inl (OtherError m))"
  shows "upload_file lib u = internal_error m
       \<and> reply (upload_file lib u)
           = \<lparr>status_code = 500, success = False, message = internal_error_prefix @ m,
               download_filename = None\<rparr>
       \<and> saved (upload_file lib u) = None"
proof -
  have "process lib u = Inl (OtherError m)"
  proof (rule disjE [OF assms(4)])
    assume h: "rows (dropna df0) = [] \<and> apply_empty lib = Some (OtherError m)"
    show ?thesis by (rule process_apply_error [OF assms(1,2,3) h [THEN conjunct1] h [THEN conjunct2]])
  next
    assume h: "(rows (dropna df0) \<noteq> [] \<or> apply_empty lib = None)
             \<and> compose lib u (fst (splitext (filename u))) (lower lib (snd (splitext (filename u))))
                  (annotate (dropna df0)) (summary (dropna df0)) = Inl (OtherError m)"
    show ?thesis
      unfolding process_compose [OF assms(1,2,3) h [THEN conjunct1]] h [THEN conjunct2] by simp
  qed
  then have "upload_file lib u = internal_error m" by (simp add: upload_file_def)
  then show ?thesis by (simp add: internal_error_def)
qed

theorem unclassified_failure_reply_witness:
  "accepted plain_library failing_save_upload
   \<and> read_excel failing_save_upload = Inr scenario_A
   \<and> {''Name'', ''Data Type''} \<subseteq> set (columns scenario_A)
   \<and> rows (dropna scenario_A) \<noteq> []
   \<and> compose plain_library failing_save_upload (fst (splitext (filename failing_save_upload)))
        (lower plain_library (snd (splitext (filename failing_save_upload))))
        (annotate (dropna scenario_A)) (summary (dropna scenario_A)) = Inl (OtherError ''disk full'')
   \<and> upload_file plain_library failing_save_upload = internal_error ''disk full''"
proof -
  have a: "accepted plain_library failing_save_upload"
    by (simp add: failing_save_upload_def xlsm_upload_def upload_defs)
  have r: "read_excel failing_save_upload = Inr scenario_A"
    by (simp add: read_excel_def failing_save_upload_def xlsm_upload_def)
  have c: "{''Name'', ''Data Type''} \<subseteq> set (columns scenario_A)" by (simp add: scenario_A_def)
  have n: "rows (dropna scenario_A) \<noteq> []" by (simp add: scenario_A_def frame_defs)
  have co: "compose plain_library failing_save_upload (fst (splitext (filename failing_save_upload)))
        (lower plain_library (snd (splitext (filename failing_save_upload))))
        (annotate (dropna scenario_A)) (summary (dropna scenario_A)) = Inl (OtherError ''disk full'')"
    by (simp add: handler_defs failing_save_upload_def xlsm_upload_def processed_workbook_def
        data_sheet_def upload_defs Let_def split: prod.splits)
  from n co have h: "(rows (dropna scenario_A) = [] \<and> apply_empty plain_library = Some (OtherError ''disk full''))
         \<or> ((rows (dropna scenario_A) \<noteq> [] \<or> apply_empty plain_library = None)
             \<and> compose plain_library failing_save_upload (fst (splitext (filename failing_save_upload)))
                  (lower plain_library (snd (splitext (filename failing_save_upload))))
                  (annotate (dropna scenario_A)) (summary (dropna scenario_A)) = Inl (OtherError ''disk full''))"
    by blast
  from unclassified_failure_reply [OF a r c h] have "upload_file plain_library failing_save_upload = internal_error ''disk full''"
    by (elim conjE)
  with a r c n co show ?thesis by (intro conjI)
qed

end
